theory Spec2Isabelle
  imports Complex_Main
begin

section \<open>Configuration and trajectory data\<close>

text \<open>
  The struct \<open>pmap\<close> of \<open>poincare.c\<close> holds the command-line configuration. Only the
  fields read by the trajectory engine are kept. C \<open>double\<close> values are idealised as
  real numbers, and the \<open>short\<close> flags, which only ever hold 0 or 1, are booleans.
\<close>

record pmap =
  verbose :: bool
  use_normalized_stokes_params :: bool
  use_bezier_curves :: bool
  user_specified_inputfile :: bool
  draw_hidden_dashed :: bool
  draw_paths_as_arrows :: bool
  reverse_arrow_paths :: bool
  rot_psi :: real
  rot_phi :: real
  hiddengraytone :: real
  paththickness :: real
  arrowheadangle :: real

section \<open>Visibility classifier and frame transform\<close>

text \<open>The local variable \<open>vprod\<close> of \<open>visible()\<close>.\<close>

definition vprod :: "real \<Rightarrow> real \<Rightarrow> real \<Rightarrow> pmap \<Rightarrow> real" where
  "vprod s1 s2 s3 pm =
     s1 * cos (rot_psi pm) * cos (rot_phi pm)
       - s2 * sin (rot_psi pm) * cos (rot_phi pm)
       + s3 * sin (rot_phi pm)"

text \<open>\<open>visible()\<close> returns 1 (here \<open>True\<close>) in the visible region and 0 in the hidden one.\<close>

definition visible :: "real \<Rightarrow> real \<Rightarrow> real \<Rightarrow> pmap \<Rightarrow> bool" where
  "visible s1 s2 s3 pm = (if vprod s1 s2 s3 pm \<ge> 0.0 then True else False)"

text \<open>
  \<open>get_screen_coordinates()\<close> writes the screen coordinates through the pointers \<open>x\<close>
  and \<open>y\<close>; the model returns the pair. With normalisation and a zero vector the C
  code divides by zero; the real-number model then returns HOL's \<open>x / 0 = 0\<close>, so
  nothing is claimed about that case.
\<close>

definition get_screen_coordinates :: "real \<Rightarrow> real \<Rightarrow> real \<Rightarrow> pmap \<Rightarrow> real \<times> real" where
  "get_screen_coordinates s1 s2 s3 pm =
     (let x = s1 * sin (rot_psi pm) + s2 * cos (rot_psi pm);
          y = - s1 * cos (rot_psi pm) * sin (rot_phi pm)
                + s2 * sin (rot_psi pm) * sin (rot_phi pm) + s3 * cos (rot_phi pm)
      in if use_normalized_stokes_params pm
         then (let snorm = sqrt (s1 * s1 + s2 * s2 + s3 * s3) in (x / snorm, y / snorm))
         else (x, y))"

section \<open>Trajectories and run-time failures\<close>

text \<open>
  The struct \<open>stoketraject\<close>. Its arrays are used from index 1; the allocators
  (\<open>dvector(1, MAX_NUM_STOKE_COORDS)\<close> and so on) provide the entries \<open>0, ..., MAX\<close>. They
  are modelled as functions of the index, and every function of the model that stores
  into one first checks that the index is an allocated one, since the C code does not.
  The fields \<open>s1\<close>, \<open>s2\<close>, \<open>s3\<close>, \<open>visible\<close>, \<open>tickmark\<close> and \<open>label\<close> carry the prefix
  \<open>st_\<close> because the plain names are used for variables and functions of the program.
\<close>

record stoketraject =
  numcoords :: int
  st_s1 :: "int \<Rightarrow> real"
  st_s2 :: "int \<Rightarrow> real"
  st_s3 :: "int \<Rightarrow> real"
  st_visible :: "int \<Rightarrow> bool"
  numtickmarks :: int
  st_tickmark :: "int \<Rightarrow> int"
  numlabels :: int
  st_label :: "int \<Rightarrow> int"
  labeltext :: "int \<Rightarrow> int \<Rightarrow> char"
  labellength :: "int \<Rightarrow> int"
  labelpos :: "int \<Rightarrow> int"

text \<open>
  Every \<open>exit(1)\<close> of the program is a value of \<open>error\<close> named after its diagnostic.
  \<open>Array_overrun\<close> is not an exit: it marks a write or read outside an allocated array,
  where the behaviour of the C program is undefined.
\<close>

datatype error =
    Index_out_of_range int int
  | Invalid_viewtype int
  | Invalid_label_string string
  | Missing_opening_quote
  | Missing_closing_quote
  | Faulty_S1
  | Faulty_S2
  | Faulty_S3
  | Failed_scanning_label_position
  | Invalid_labelpos int
  | Tickmark_index_out_of_range int
  | Tickmark_NaN
  | Cannot_open_file
  | Array_overrun

section \<open>Visibility transitions\<close>

definition point_just_became_hidden :: "stoketraject \<Rightarrow> int \<Rightarrow> error + bool" where
  "point_just_became_hidden st k =
     (if k = 1 then
        (if st_visible st k = False then Inr True else Inr False)
      else if 2 \<le> k \<and> k \<le> numcoords st then
        (if st_visible st k = False \<and> st_visible st (k - 1) = True then Inr True else Inr False)
      else Inl (Index_out_of_range k (numcoords st)))"

definition point_just_became_visible :: "stoketraject \<Rightarrow> int \<Rightarrow> error + bool" where
  "point_just_became_visible st k =
     (if k = 1 then
        (if st_visible st k = True then Inr True else Inr False)
      else if 2 \<le> k \<and> k \<le> numcoords st then
        (if st_visible st k = True \<and> st_visible st (k - 1) = False then Inr True else Inr False)
      else Inl (Index_out_of_range k (numcoords st)))"

section \<open>Drawing primitives\<close>

text \<open>
  The trajectory section of the output file is a sequence of MetaPost statements. The
  model keeps one value per group of statements that belong together: a \<open>pickup pencircle\<close>
  line; the assignment of a path to \<open>p\<close> with the \<open>draw\<close> statement that follows it (the
  points, whether they are joined by \<open>..\<close>, the draw command and the colour clause); the
  three arrow-head settings around the section; a tick mark (its two end points, and the
  colour it is drawn with if this pass draws it); and a label (the suffix of its \<open>label\<close>
  command, its text and its position). Line breaks inside a path and the rounding of the
  printed coordinates are layout and are left out.
\<close>

datatype drawcmd = Draw | Drawarrow | Drawarrow_reverse

datatype colour = Dashed_evenly_black | Gray real | Black

datatype prim =
    Pickup real
  | Path "(real \<times> real) list" bool drawcmd colour
  | Save_ahangle
  | Set_ahangle real
  | Restore_ahangle
  | Tick "real \<times> real" "real \<times> real" "colour option"
  | Label string string "real \<times> real"

text \<open>
  The \<open>for\<close> loop of \<open>add_subtrajectory()\<close> projects the samples \<open>ka, ..., kb\<close> in
  increasing order.
\<close>

definition path_points :: "stoketraject \<Rightarrow> int \<Rightarrow> int \<Rightarrow> pmap \<Rightarrow> (real \<times> real) list" where
  "path_points st ka kb pm =
     map (\<lambda>k. get_screen_coordinates (st_s1 st k) (st_s2 st k) (st_s3 st k) pm) [ka..kb]"

definition add_subtrajectory ::
    "stoketraject \<Rightarrow> int \<Rightarrow> int \<Rightarrow> pmap \<Rightarrow> string \<Rightarrow> prim list" where
  "add_subtrajectory st ka kb pm type =
     Pickup (paththickness pm) #
     (if ka < kb then
        [Path (path_points st ka kb pm) (use_bezier_curves pm)
           (if kb = numcoords st \<and> draw_paths_as_arrows pm then
              (if reverse_arrow_paths pm then Drawarrow_reverse else Drawarrow)
            else Draw)
           (if type = ''hidden'' then
              (if draw_hidden_dashed pm then Dashed_evenly_black else Gray (hiddengraytone pm))
            else Black)]
      else [])"

section \<open>Splitting a trajectory into hidden and visible runs\<close>

text \<open>
  One value of \<open>emission\<close> per call of \<open>add_subtrajectory()\<close> made by a sweep: \<open>core\<close> is
  the pair \<open>(ka, kb)\<close> that the sweep has found (the pair printed by its verbose message),
  \<open>call_range\<close> the pair passed to \<open>add_subtrajectory()\<close>, and \<open>prims\<close> what that call prints.
\<close>

record emission =
  core :: "int \<times> int"
  call_range :: "int \<times> int"
  prims :: "prim list"

definition emit :: "emission \<Rightarrow> error + emission list \<Rightarrow> error + emission list" where
  "emit e r = (case r of Inl err \<Rightarrow> Inl err | Inr es \<Rightarrow> Inr (e # es))"

text \<open>
  The inner \<open>while\<close> loop of \<open>add_hidden_subtrajectories()\<close>, with its variables \<open>k\<close> and
  \<open>kb\<close>. Nothing in the loop itself bounds the number of iterations (when \<open>kb\<close> is set to
  \<open>k - 1 < ka\<close> the state repeats), so the result is optional: \<open>None\<close> stands for a loop
  that never ends.
\<close>

partial_function (option) hidden_while ::
    "stoketraject \<Rightarrow> int \<Rightarrow> int \<Rightarrow> int \<Rightarrow> (error + int \<times> int) option" where
  "hidden_while st ka k kb =
     (if k \<le> numcoords st \<and> kb < ka then
        (case point_just_became_visible st k of
           Inl err \<Rightarrow> Some (Inl err)
         | Inr b \<Rightarrow> if b then hidden_while st ka k (k - 1) else hidden_while st ka (k + 1) kb)
      else Some (Inr (k, kb)))"

text \<open>The outer loop of \<open>add_hidden_subtrajectories()\<close>, started at \<open>k = 1\<close>.\<close>

partial_function (option) hidden_sweep ::
    "stoketraject \<Rightarrow> pmap \<Rightarrow> int \<Rightarrow> (error + emission list) option" where
  "hidden_sweep st pm k =
     (if k \<le> numcoords st then
        (case point_just_became_hidden st k of
           Inl err \<Rightarrow> Some (Inl err)
         | Inr b \<Rightarrow>
             if b then
               (let ka = k; kb = ka - 1 in
                Option.bind (hidden_while st ka k kb) (\<lambda>r.
                  case r of
                    Inl err \<Rightarrow> Some (Inl err)
                  | Inr (k', _) \<Rightarrow>
                      (let kb = k' - 1 in
                       Option.bind (hidden_sweep st pm (k' + 1)) (\<lambda>rest.
                         Some (emit \<lparr>core = (ka, kb), call_range = (ka, kb),
                                     prims = add_subtrajectory st ka kb pm ''hidden''\<rparr> rest)))))
             else hidden_sweep st pm (k + 1))
      else Some (Inr []))"

definition add_hidden_subtrajectories ::
    "stoketraject \<Rightarrow> pmap \<Rightarrow> (error + emission list) option" where
  "add_hidden_subtrajectories st pm = hidden_sweep st pm 1"

text \<open>The two loops of \<open>add_visible_subtrajectories()\<close>.\<close>

partial_function (option) visible_while ::
    "stoketraject \<Rightarrow> int \<Rightarrow> int \<Rightarrow> int \<Rightarrow> (error + int \<times> int) option" where
  "visible_while st ka k kb =
     (if k \<le> numcoords st \<and> kb < ka then
        (case point_just_became_hidden st k of
           Inl err \<Rightarrow> Some (Inl err)
         | Inr b \<Rightarrow> if b then visible_while st ka k (k - 1) else visible_while st ka (k + 1) kb)
      else Some (Inr (k, kb)))"

partial_function (option) visible_sweep ::
    "stoketraject \<Rightarrow> pmap \<Rightarrow> int \<Rightarrow> (error + emission list) option" where
  "visible_sweep st pm k =
     (if k \<le> numcoords st then
        (case point_just_became_visible st k of
           Inl err \<Rightarrow> Some (Inl err)
         | Inr b \<Rightarrow>
             if b then
               (let ka = k; kb = ka - 1 in
                Option.bind (visible_while st ka k kb) (\<lambda>r.
                  case r of
                    Inl err \<Rightarrow> Some (Inl err)
                  | Inr (k', _) \<Rightarrow>
                      (let kb = k' - 1;
                           ka' = (if ka > 1 then ka - 1 else ka);
                           kb' = (if kb < numcoords st then kb + 1 else kb) in
                       Option.bind (visible_sweep st pm (k' + 1)) (\<lambda>rest.
                         Some (emit \<lparr>core = (ka, kb), call_range = (ka', kb'),
                                     prims = add_subtrajectory st ka' kb' pm ''visible''\<rparr> rest)))))
             else visible_sweep st pm (k + 1))
      else Some (Inr []))"

definition add_visible_subtrajectories ::
    "stoketraject \<Rightarrow> pmap \<Rightarrow> (error + emission list) option" where
  "add_visible_subtrajectories st pm = visible_sweep st pm 1"

section \<open>The trajectory file\<close>

text \<open>
  The input stream is the list of the characters not yet read. \<open>getc()\<close> returns \<open>EOF\<close>
  (here \<open>None\<close>) at the end, any number of times; \<open>ungetc(EOF, ...)\<close> does nothing.
\<close>

type_synonym infile = string

definition getc :: "infile \<Rightarrow> char option \<times> infile" where
  "getc inp = (case inp of [] \<Rightarrow> (None, []) | ch # rest \<Rightarrow> (Some ch, rest))"

definition new_trajectory :: "infile \<Rightarrow> bool \<times> infile" where
  "new_trajectory inp =
     (case getc inp of (ch, rest) \<Rightarrow> if ch = Some CHR ''p'' then (True, rest) else (False, inp))"

definition end_of_trajectory :: "infile \<Rightarrow> bool \<times> infile" where
  "end_of_trajectory inp =
     (case getc inp of (ch, rest) \<Rightarrow> if ch = Some CHR ''q'' then (True, rest) else (False, inp))"

definition beginlabel :: "infile \<Rightarrow> bool \<times> infile" where
  "beginlabel inp =
     (case getc inp of (ch, rest) \<Rightarrow> if ch = Some CHR ''b'' then (True, rest) else (False, inp))"

definition tickmark :: "infile \<Rightarrow> bool \<times> infile" where
  "tickmark inp =
     (case getc inp of (ch, rest) \<Rightarrow> if ch = Some CHR ''t'' then (True, rest) else (False, inp))"

definition tickmarklabel :: "infile \<Rightarrow> bool \<times> infile" where
  "tickmarklabel inp =
     (case getc inp of (ch, rest) \<Rightarrow> if ch = Some CHR ''l'' then (True, rest) else (False, inp))"

definition endlabel :: "infile \<Rightarrow> bool \<times> infile" where
  "endlabel inp =
     (case getc inp of (ch, rest) \<Rightarrow> if ch = Some CHR ''e'' then (True, rest) else (False, inp))"

text \<open>The character classes of \<open>ctype.h\<close> in the C locale.\<close>

definition isdigit :: "char \<Rightarrow> bool" where
  "isdigit ch = (48 \<le> (of_char ch :: nat) \<and> (of_char ch :: nat) \<le> 57)"

definition isalnum :: "char \<Rightarrow> bool" where
  "isalnum ch =
     (isdigit ch \<or> (65 \<le> (of_char ch :: nat) \<and> (of_char ch :: nat) \<le> 90)
        \<or> (97 \<le> (of_char ch :: nat) \<and> (of_char ch :: nat) \<le> 122))"

definition isspace :: "char \<Rightarrow> bool" where
  "isspace ch = ((of_char ch :: nat) = 32 \<or> (9 \<le> (of_char ch :: nat) \<and> (of_char ch :: nat) \<le> 13))"

text \<open>
  The comment loop \<open>while (((ch=getc(infileptr))!='\n')&&(ch!=EOF));\<close> of
  \<open>readaway_comments_and_blanks()\<close>: it reads up to and including the end of the row.
\<close>

fun readaway_row :: "infile \<Rightarrow> infile" where
  "readaway_row [] = []"
| "readaway_row (ch # rest) = (if ch = CHR 0x0A then rest else readaway_row rest)"

text \<open>
  \<open>readaway_comments_and_blanks()\<close>; the line counter, which only feeds the diagnostics,
  is left out.
\<close>

function readaway_comments_and_blanks :: "infile \<Rightarrow> infile" where
  "readaway_comments_and_blanks [] = []"
| "readaway_comments_and_blanks (ch # rest) =
     (if \<not> (isalnum ch \<or> ch = CHR ''-'' \<or> ch = CHR ''+'') then
        (if ch = CHR 0x0A then readaway_comments_and_blanks rest
         else if ch = CHR ''%'' then readaway_comments_and_blanks (readaway_row rest)
         else readaway_comments_and_blanks rest)
      else ch # rest)"
  by pat_completeness auto
termination
proof (relation "measure length")
  have row: "length (readaway_row r) \<le> length r" for r
    by (induction r) auto
  fix ch :: char and rest :: infile
  show "(readaway_row rest, ch # rest) \<in> measure length"
    using row [of rest] by simp
qed auto

text \<open>
  The conversions of \<open>fscanf()\<close>, from the C standard. Both skip white space first; at the
  end of the input they return \<open>EOF\<close> (\<open>-1\<close>) and leave the variable as it was, so the
  previous content of the variable is an argument. The result is the return value of
  \<open>fscanf()\<close>, the content of the variable afterwards, and the rest of the input.

  \<open>%f\<close> accepts an optional sign, decimal digits with an optional fraction, and an
  optional exponent; the value is kept as a real number, not rounded to a \<open>float\<close>.
  Hexadecimal constants, \<open>inf\<close> and \<open>nan\<close> have no real-number value and are refused.
\<close>

definition digits_value :: "string \<Rightarrow> nat" where
  "digits_value ds = foldl (\<lambda>a ch. 10 * a + ((of_char ch :: nat) - 48)) 0 ds"

definition scan_sign :: "infile \<Rightarrow> bool \<times> infile" where
  "scan_sign inp =
     (case inp of
        [] \<Rightarrow> (False, [])
      | ch # rest \<Rightarrow>
          if ch = CHR ''-'' then (True, rest)
          else if ch = CHR ''+'' then (False, rest) else (False, inp))"

definition scan_exponent :: "infile \<Rightarrow> (int \<times> infile) option" where
  "scan_exponent inp =
     (case inp of
        [] \<Rightarrow> Some (0, [])
      | ch # rest \<Rightarrow>
          if ch = CHR ''e'' \<or> ch = CHR ''E'' then
            (case scan_sign rest of (neg, rest') \<Rightarrow>
               if takeWhile isdigit rest' = [] then None
               else Some ((if neg then - int (digits_value (takeWhile isdigit rest'))
                           else int (digits_value (takeWhile isdigit rest'))),
                          dropWhile isdigit rest'))
          else Some (0, inp))"

definition scan_fraction :: "infile \<Rightarrow> string \<times> infile" where
  "scan_fraction inp =
     (case inp of
        [] \<Rightarrow> ([], [])
      | ch # rest \<Rightarrow>
          if ch = CHR ''.'' then (takeWhile isdigit rest, dropWhile isdigit rest) else ([], inp))"

definition fscanf_f :: "infile \<Rightarrow> real \<Rightarrow> int \<times> real \<times> infile" where
  "fscanf_f inp old =
     (let inp1 = dropWhile isspace inp in
      if inp1 = [] then (- 1, old, [])
      else
        (case scan_sign inp1 of (neg, inp2) \<Rightarrow>
           case scan_fraction (dropWhile isdigit inp2) of (fp, inp3) \<Rightarrow>
             let ip = takeWhile isdigit inp2 in
             if ip = [] \<and> fp = [] then (0, old, inp2)
             else
               (case scan_exponent inp3 of
                  None \<Rightarrow> (0, old, inp3)
                | Some (ex, inp4) \<Rightarrow>
                    (1,
                     (if neg then - 1 else 1)
                       * (real (digits_value ip) + real (digits_value fp) / 10 ^ length fp)
                       * (if ex < 0 then 1 / 10 ^ nat (- ex) else 10 ^ nat ex),
                     inp4))))"

definition fscanf_s :: "infile \<Rightarrow> string \<Rightarrow> int \<times> string \<times> infile" where
  "fscanf_s inp old =
     (let inp1 = dropWhile isspace inp in
      if inp1 = [] then (- 1, old, [])
      else (1, takeWhile (\<lambda>ch. \<not> isspace ch) inp1, dropWhile (\<lambda>ch. \<not> isspace ch) inp1))"

section \<open>Scanning one trajectory\<close>

definition MAX_NUM_STOKE_COORDS :: int where
  "MAX_NUM_STOKE_COORDS = 5000"

definition MAX_NUM_TICKMARKS :: int where
  "MAX_NUM_TICKMARKS = MAX_NUM_STOKE_COORDS div 10"

definition MAX_NUM_LABELS :: int where
  "MAX_NUM_LABELS = MAX_NUM_TICKMARKS div 10"

definition TOPLABEL :: int where "TOPLABEL = 1"
definition UPPERLEFTLABEL :: int where "UPPERLEFTLABEL = 2"
definition LEFTLABEL :: int where "LEFTLABEL = 3"
definition LOWERLEFTLABEL :: int where "LOWERLEFTLABEL = 4"
definition BOTTOMLABEL :: int where "BOTTOMLABEL = 5"
definition LOWERRIGHTLABEL :: int where "LOWERRIGHTLABEL = 6"
definition RIGHTLABEL :: int where "RIGHTLABEL = 7"
definition UPPERRIGHTLABEL :: int where "UPPERRIGHTLABEL = 8"

definition HIDDEN :: int where "HIDDEN = 0"
definition VISIBLE :: int where "VISIBLE = 1"

text \<open>
  What the program reads before writing it: the three \<open>float\<close> locals of
  \<open>scan_for_stokes_triplet()\<close>, the buffer \<open>tmpstr\<close> of \<open>scan_label()\<close>, and the arrays
  as \<open>malloc()\<close> returns them. Their contents are indeterminate, so they are
  parameters of the model.
\<close>

record uninitialised =
  u_s1 :: real
  u_s2 :: real
  u_s3 :: real
  u_tmpstr :: string
  u_arrays :: stoketraject

definition initialize_stoke_trajectory :: "uninitialised \<Rightarrow> stoketraject" where
  "initialize_stoke_trajectory u = (u_arrays u)\<lparr>numcoords := 0, numtickmarks := 0, numlabels := 0\<rparr>"

text \<open>
  \<open>reset_stokes_trajectory_struct()\<close> clears the entries \<open>1, ..., MAX\<close> of every array;
  the allocators also provide an entry 0, which it leaves alone.
\<close>

definition reset_stokes_trajectory_struct :: "stoketraject \<Rightarrow> stoketraject" where
  "reset_stokes_trajectory_struct st =
     \<lparr>numcoords = 0,
      st_s1 = (\<lambda>k. if 1 \<le> k \<and> k \<le> MAX_NUM_STOKE_COORDS then 0.0 else st_s1 st k),
      st_s2 = (\<lambda>k. if 1 \<le> k \<and> k \<le> MAX_NUM_STOKE_COORDS then 0.0 else st_s2 st k),
      st_s3 = (\<lambda>k. if 1 \<le> k \<and> k \<le> MAX_NUM_STOKE_COORDS then 0.0 else st_s3 st k),
      st_visible = (\<lambda>k. if 1 \<le> k \<and> k \<le> MAX_NUM_STOKE_COORDS then False else st_visible st k),
      numtickmarks = 0,
      st_tickmark = (\<lambda>k. if 1 \<le> k \<and> k \<le> MAX_NUM_TICKMARKS then 0 else st_tickmark st k),
      numlabels = 0,
      st_label = (\<lambda>k. if 1 \<le> k \<and> k \<le> MAX_NUM_LABELS + 2 then 0 else st_label st k),
      labeltext = (\<lambda>k j. if 1 \<le> k \<and> k \<le> MAX_NUM_LABELS + 2 \<and> 1 \<le> j \<and> j \<le> 256
                          then CHR '' '' else labeltext st k j),
      labellength = (\<lambda>k. if 1 \<le> k \<and> k \<le> MAX_NUM_LABELS + 2 then 0 else labellength st k),
      labelpos = (\<lambda>k. if 1 \<le> k \<and> k \<le> MAX_NUM_LABELS + 2 then 0 else labelpos st k)\<rparr>"

text \<open>The chain of \<open>strcmp()\<close> tests of \<open>scan_label()\<close>.\<close>

definition label_position :: "string \<Rightarrow> error + int" where
  "label_position tmpstr =
     (if tmpstr = ''top'' then Inr TOPLABEL
      else if tmpstr = ''ulft'' then Inr UPPERLEFTLABEL
      else if tmpstr = ''lft'' then Inr LEFTLABEL
      else if tmpstr = ''llft'' then Inr LOWERLEFTLABEL
      else if tmpstr = ''bot'' then Inr BOTTOMLABEL
      else if tmpstr = ''lrgt'' then Inr LOWERRIGHTLABEL
      else if tmpstr = ''rgt'' then Inr RIGHTLABEL
      else if tmpstr = ''urgt'' then Inr UPPERRIGHTLABEL
      else Inl (Invalid_label_string tmpstr))"

text \<open>
  The loop of \<open>scan_label()\<close> that reads the label text up to the closing quote mark into
  \<open>tmpstr[1], tmpstr[2], ...\<close>; \<open>txt\<close> holds the characters stored so far, so \<open>k\<close> is its
  length. \<open>tmpstr\<close> has 256 entries, the last of them \<open>tmpstr[255]\<close>. At the end of the
  input \<open>getc()\<close> returns \<open>EOF\<close> for ever, which is neither a quote mark nor a newline, and
  the loop runs over the end of the buffer.

  \<open>scan_label()\<close> itself stores into slot \<open>lnum\<close> of the label arrays, whose slots of use
  are \<open>1, ..., MAX_NUM_LABELS + 2\<close>; the position string read by \<open>%s\<close> must fit into
  \<open>tmpstr\<close> with its terminating zero.
\<close>

fun scan_label_text :: "infile \<Rightarrow> string \<Rightarrow> error + string \<times> infile" where
  "scan_label_text [] txt = Inl Array_overrun"
| "scan_label_text (ch # rest) txt =
     (if ch = CHR 0x22 then Inr (txt, rest)
      else if ch \<noteq> CHR 0x0A then
        (if int (length txt) + 1 > 255 then Inl Array_overrun
         else scan_label_text rest (txt @ [ch]))
      else Inl Missing_closing_quote)"

definition scan_label ::
    "uninitialised \<Rightarrow> infile \<Rightarrow> stoketraject \<Rightarrow> int \<Rightarrow> int \<Rightarrow> error + infile \<times> stoketraject" where
  "scan_label u inp st lnum coordnum =
     (let inp1 = readaway_comments_and_blanks inp in
      if lnum < 1 \<or> lnum > MAX_NUM_LABELS + 2 then Inl Array_overrun
      else
        (case fscanf_s inp1 (u_tmpstr u) of (rc, tmpstr, inp2) \<Rightarrow>
           if rc = 0 then Inl Failed_scanning_label_position
           else if length tmpstr > 255 then Inl Array_overrun
           else
             (case label_position tmpstr of
                Inl err \<Rightarrow> Inl err
              | Inr pos \<Rightarrow>
                  (let inp3 = dropWhile (\<lambda>ch. ch = CHR '' '') inp2 in
                   case getc inp3 of (ch, inp4) \<Rightarrow>
                     if ch \<noteq> Some CHR 0x22 then Inl Missing_opening_quote
                     else
                       (case scan_label_text inp4 [] of
                          Inl err \<Rightarrow> Inl err
                        | Inr (txt, inp5) \<Rightarrow>
                            Inr (inp5,
                                 st\<lparr>st_label := (st_label st)(lnum := coordnum),
                                    labelpos := (labelpos st)(lnum := pos),
                                    labellength := (labellength st)(lnum := int (length txt)),
                                    labeltext := (labeltext st)(lnum :=
                                       (\<lambda>j. if 1 \<le> j \<and> j \<le> int (length txt)
                                             then txt ! nat (j - 1)
                                             else labeltext st lnum j))\<rparr>))))))"

definition scan_beginlabel ::
    "uninitialised \<Rightarrow> infile \<Rightarrow> stoketraject \<Rightarrow> int \<Rightarrow> error + infile \<times> stoketraject" where
  "scan_beginlabel u inp st coordnum = scan_label u inp st 1 coordnum"

definition scan_endlabel ::
    "uninitialised \<Rightarrow> infile \<Rightarrow> stoketraject \<Rightarrow> int \<Rightarrow> error + infile \<times> stoketraject" where
  "scan_endlabel u inp st coordnum = scan_label u inp st (MAX_NUM_LABELS + 2) coordnum"

definition scan_for_stokes_triplet ::
    "uninitialised \<Rightarrow> infile \<Rightarrow> stoketraject \<Rightarrow> error + infile \<times> stoketraject" where
  "scan_for_stokes_triplet u inp st =
     (case fscanf_f inp (u_s1 u) of (rc1, s1, inp1) \<Rightarrow>
        if rc1 = 0 then Inl Faulty_S1
        else
          (case fscanf_f inp1 (u_s2 u) of (rc2, s2, inp2) \<Rightarrow>
             if rc2 = 0 then Inl Faulty_S2
             else
               (case fscanf_f inp2 (u_s3 u) of (rc3, s3, inp3) \<Rightarrow>
                  if rc3 = 0 then Inl Faulty_S3
                  else
                    (let n = numcoords st + 1 in
                     if n < 0 \<or> n > MAX_NUM_STOKE_COORDS then Inl Array_overrun
                     else Inr (inp3,
                               st\<lparr>numcoords := n,
                                  st_s1 := (st_s1 st)(n := s1),
                                  st_s2 := (st_s2 st)(n := s2),
                                  st_s3 := (st_s3 st)(n := s3)\<rparr>)))))"

definition scan_for_tickmark :: "infile \<Rightarrow> stoketraject \<Rightarrow> error + infile \<times> stoketraject" where
  "scan_for_tickmark inp st =
     (case tickmark inp of (found, inp1) \<Rightarrow>
        if found then
          (let n = numtickmarks st + 1 in
           if n < 0 \<or> n > MAX_NUM_TICKMARKS then Inl Array_overrun
           else Inr (inp1, st\<lparr>numtickmarks := n,
                               st_tickmark := (st_tickmark st)(n := numcoords st)\<rparr>))
        else Inr (inp1, st))"

definition scan_for_tickmarklabel ::
    "uninitialised \<Rightarrow> infile \<Rightarrow> stoketraject \<Rightarrow> error + infile \<times> stoketraject" where
  "scan_for_tickmarklabel u inp st =
     (case tickmarklabel inp of (found, inp1) \<Rightarrow>
        if found then
          (let n = numlabels st + 1 in
           if n < 0 \<or> n > MAX_NUM_LABELS + 2 then Inl Array_overrun
           else
             (let st1 = st\<lparr>numlabels := n, st_label := (st_label st)(n := numcoords st)\<rparr>
              in scan_label u inp1 st1 (numlabels st1) (st_label st1 (numlabels st1))))
        else Inr (inp1, st))"

section \<open>Flushing one trajectory\<close>

text \<open>The \<open>for\<close> loop of \<open>sort_out_visible_and_hidden()\<close>.\<close>

definition sort_out_visible_and_hidden :: "stoketraject \<Rightarrow> pmap \<Rightarrow> stoketraject" where
  "sort_out_visible_and_hidden st pm =
     fold (\<lambda>k s. s\<lparr>st_visible := (st_visible s)
                       (k := visible (st_s1 s k) (st_s2 s k) (st_s3 s k) pm)\<rparr>)
          [1..numcoords st] st"

definition add_scanned_trajectory ::
    "stoketraject \<Rightarrow> pmap \<Rightarrow> int \<Rightarrow> stoketraject \<times> (error + emission list) option" where
  "add_scanned_trajectory st pm viewtype =
     (let st1 = sort_out_visible_and_hidden st pm in
      if viewtype = HIDDEN then (st1, add_hidden_subtrajectories st1 pm)
      else if viewtype = VISIBLE then (st1, add_visible_subtrajectories st1 pm)
      else (st1, Some (Inl (Invalid_viewtype viewtype))))"

text \<open>
  \<open>get_tickmark_screen_coordinates()\<close>. Its two \<open>isnan()\<close> tests are modelled over the
  real numbers by the cause of the NaN: one of the three normalisations divides zero by
  zero.
\<close>

definition get_tickmark_screen_coordinates ::
    "int \<Rightarrow> stoketraject \<Rightarrow> pmap \<Rightarrow> error + (real \<times> real) \<times> (real \<times> real)" where
  "get_tickmark_screen_coordinates k st pm =
     (let t = st_tickmark st k in
      case (if t = 1 then
              Inr (st_s1 st (t + 1) - st_s1 st t, st_s2 st (t + 1) - st_s2 st t,
                   st_s3 st (t + 1) - st_s3 st t)
            else if t = numcoords st then
              Inr (st_s1 st t - st_s1 st (t - 1), st_s2 st t - st_s2 st (t - 1),
                   st_s3 st t - st_s3 st (t - 1))
            else if 1 < t \<and> t < numcoords st then
              Inr (st_s1 st (t + 1) - st_s1 st (t - 1), st_s2 st (t + 1) - st_s2 st (t - 1),
                   st_s3 st (t + 1) - st_s3 st (t - 1))
            else Inl (Tickmark_index_out_of_range t)) of
        Inl err \<Rightarrow> Inl err
      | Inr (q1', q2', q3') \<Rightarrow>
          (let snormq = sqrt (q1' * q1' + q2' * q2' + q3' * q3');
               q1 = q1' / snormq; q2 = q2' / snormq; q3 = q3' / snormq;
               s1 = st_s1 st t; s2 = st_s2 st t; s3 = st_s3 st t;
               s0 = sqrt (s1 * s1 + s2 * s2 + s3 * s3);
               s1n = s1 / s0; s2n = s2 / s0; s3n = s3 / s0;
               p1' = s2n * q3 - s3n * q2;
               p2' = s3n * q1 - s1n * q3;
               p3' = s1n * q2 - s2n * q1;
               snormp = sqrt (p1' * p1' + p2' * p2' + p3' * p3');
               p1 = p1' / snormp; p2 = p2' / snormp; p3 = p3' / snormp;
               s1a = s1n + 0.028213 * p1; s2a = s2n + 0.028213 * p2; s3a = s3n + 0.028213 * p3;
               s1b = s1n - 0.028213 * p1; s2b = s2n - 0.028213 * p2; s3b = s3n - 0.028213 * p3
           in if snormq = 0 \<or> s0 = 0 \<or> snormp = 0 then Inl Tickmark_NaN
              else Inr (get_screen_coordinates (s0 * s1a) (s0 * s2a) (s0 * s3a) pm,
                        get_screen_coordinates (s0 * s1b) (s0 * s2b) (s0 * s3b) pm)))"

text \<open>The body of the \<open>for\<close> loop of \<open>add_scanned_tickmarks()\<close>, for the indices \<open>ks\<close>.\<close>

fun tickmarks_for ::
    "stoketraject \<Rightarrow> pmap \<Rightarrow> int \<Rightarrow> int list \<Rightarrow> prim list \<times> (error + unit)" where
  "tickmarks_for st pm viewtype [] = ([], Inr ())"
| "tickmarks_for st pm viewtype (k # ks) =
     (case get_tickmark_screen_coordinates k st pm of
        Inl err \<Rightarrow> ([], Inl err)
      | Inr (a, b) \<Rightarrow>
          (case tickmarks_for st pm viewtype ks of (out, r) \<Rightarrow>
             (Tick a b
                (if st_visible st (st_tickmark st k) \<and> viewtype = VISIBLE then Some Black
                 else if \<not> st_visible st (st_tickmark st k) \<and> viewtype = HIDDEN
                   then Some (Gray (hiddengraytone pm))
                 else None) # out, r)))"

definition add_scanned_tickmarks ::
    "stoketraject \<Rightarrow> pmap \<Rightarrow> int \<Rightarrow> prim list \<times> (error + unit)" where
  "add_scanned_tickmarks st pm viewtype =
     (case tickmarks_for st pm viewtype [1..numtickmarks st] of (out, r) \<Rightarrow>
        (Pickup (paththickness pm / 2.0) # out, r))"

definition label_suffix :: "int \<Rightarrow> error + string" where
  "label_suffix pos =
     (if pos = TOPLABEL then Inr ''top''
      else if pos = UPPERLEFTLABEL then Inr ''ulft''
      else if pos = LEFTLABEL then Inr ''lft''
      else if pos = LOWERLEFTLABEL then Inr ''llft''
      else if pos = BOTTOMLABEL then Inr ''bot''
      else if pos = LOWERRIGHTLABEL then Inr ''lrt''
      else if pos = RIGHTLABEL then Inr ''rt''
      else if pos = UPPERRIGHTLABEL then Inr ''urt''
      else Inl (Invalid_labelpos pos))"

text \<open>
  The body of the \<open>for\<close> loop of \<open>add_scanned_labels()\<close>, for the slots \<open>ks\<close>. The sample
  \<open>label[k]\<close> is read from the coordinate arrays whatever its value.
\<close>

fun labels_for :: "stoketraject \<Rightarrow> pmap \<Rightarrow> int list \<Rightarrow> prim list \<times> (error + unit)" where
  "labels_for st pm [] = ([], Inr ())"
| "labels_for st pm (k # ks) =
     (if labellength st k > 0 then
        (case label_suffix (labelpos st k) of
           Inl err \<Rightarrow> ([], Inl err)
         | Inr suffix \<Rightarrow>
             if st_label st k < 0 \<or> st_label st k > MAX_NUM_STOKE_COORDS then ([], Inl Array_overrun)
             else
               (case labels_for st pm ks of (out, r) \<Rightarrow>
                  (Label suffix (map (\<lambda>j. labeltext st k j) [1..labellength st k])
                     (get_screen_coordinates (st_s1 st (st_label st k)) (st_s2 st (st_label st k))
                        (st_s3 st (st_label st k)) pm) # out, r)))
      else labels_for st pm ks)"

definition add_scanned_labels :: "stoketraject \<Rightarrow> pmap \<Rightarrow> prim list \<times> (error + unit)" where
  "add_scanned_labels st pm = labels_for st pm [1..MAX_NUM_LABELS + 2]"

section \<open>Scanning and writing all trajectories\<close>

text \<open>The loop \<open>while (!end_of_trajectory(infileptr))\<close> of \<open>write_scanned_trajectories()\<close>.\<close>

function scan_triplets ::
    "uninitialised \<Rightarrow> infile \<Rightarrow> stoketraject \<Rightarrow> int \<Rightarrow> error + infile \<times> stoketraject \<times> int" where
  "scan_triplets u inp st coord =
     (case end_of_trajectory inp of (found, inp0) \<Rightarrow>
        if found then Inr (inp0, st, coord)
        else
          (case scan_for_stokes_triplet u inp0 st of
             Inl err \<Rightarrow> Inl err
           | Inr (inp1, st1) \<Rightarrow>
               (case scan_for_tickmark (readaway_comments_and_blanks inp1) st1 of
                  Inl err \<Rightarrow> Inl err
                | Inr (inp2, st2) \<Rightarrow>
                    (case scan_for_tickmarklabel u (readaway_comments_and_blanks inp2) st2 of
                       Inl err \<Rightarrow> Inl err
                     | Inr (inp3, st3) \<Rightarrow>
                         scan_triplets u (readaway_comments_and_blanks inp3) st3 (coord + 1)))))"
  by pat_completeness auto
termination
proof (relation "measure (\<lambda>(u, inp, st, coord). nat (MAX_NUM_STOKE_COORDS + 1 - numcoords st))")
  fix u inp st and coord :: int and y b xa ya ba xb yb bb xc yc
  assume "scan_for_stokes_triplet u y st = Inr b" "(xa, ya) = b"
    and "scan_for_tickmark (readaway_comments_and_blanks xa) ya = Inr ba" "(xb, yb) = ba"
    and "scan_for_tickmarklabel u (readaway_comments_and_blanks xb) yb = Inr bb" "(xc, yc) = bb"
  then have "scan_for_stokes_triplet u y st = Inr (xa, ya)"
    and "scan_for_tickmark (readaway_comments_and_blanks xa) ya = Inr (xb, yb)"
    and "scan_for_tickmarklabel u (readaway_comments_and_blanks xb) yb = Inr (xc, yc)"
    by simp_all
  then have "numcoords ya = numcoords st + 1 \<and> numcoords ya \<le> MAX_NUM_STOKE_COORDS"
    and "numcoords yb = numcoords ya" and "numcoords yc = numcoords yb"
    by (auto simp: scan_for_stokes_triplet_def scan_for_tickmark_def scan_for_tickmarklabel_def
          scan_label_def Let_def split: prod.splits if_splits sum.splits)
  then show "((u, readaway_comments_and_blanks xc, yc, coord + 1), u, inp, st, coord)
      \<in> measure (\<lambda>(u, inp, st, coord). nat (MAX_NUM_STOKE_COORDS + 1 - numcoords st))"
    by simp
qed simp

declare scan_triplets.simps [simp del]

text \<open>
  One turn of the loop \<open>while (new_trajectory(infileptr))\<close>, from behind the \<open>p\<close> to the
  end label: the optional begin label, the triplets up to the \<open>q\<close>, the optional end label.
  \<open>coord\<close> counts the triplets of the whole file.
\<close>

definition scan_trajectory ::
    "uninitialised \<Rightarrow> infile \<Rightarrow> stoketraject \<Rightarrow> int \<Rightarrow> error + infile \<times> stoketraject \<times> int" where
  "scan_trajectory u inp st coord =
     (case beginlabel (readaway_comments_and_blanks inp) of (foundb, inp1) \<Rightarrow>
        case (if foundb then
                (case scan_beginlabel u inp1 st 1 of
                   Inl err \<Rightarrow> Inl err
                 | Inr (inp2, st2) \<Rightarrow> Inr (readaway_comments_and_blanks inp2, st2))
              else Inr (inp1, st)) of
          Inl err \<Rightarrow> Inl err
        | Inr (inp3, st3) \<Rightarrow>
            (case scan_triplets u inp3 (st3\<lparr>numcoords := 0\<rparr>) coord of
               Inl err \<Rightarrow> Inl err
             | Inr (inp4, st4, coord4) \<Rightarrow>
                 (case endlabel (readaway_comments_and_blanks inp4) of (founde, inp5) \<Rightarrow>
                    if founde then
                      (case scan_endlabel u inp5 st4 coord4 of
                         Inl err \<Rightarrow> Inl err
                       | Inr (inp6, st6) \<Rightarrow> Inr (readaway_comments_and_blanks inp6, st6, coord4))
                    else Inr (inp5, st4, coord4))))"

text \<open>
  The three calls that flush a scanned trajectory: \<open>add_scanned_trajectory()\<close>,
  \<open>add_scanned_tickmarks()\<close> and \<open>add_scanned_labels()\<close>. The result is what has been
  written, and the trajectory (with its visibility flags) or the failure that ended the
  run. A failure inside a sweep would leave the sub-paths written before it in the file;
  the model does not keep them, and the sweeps are proved below never to fail.
\<close>

definition flush_trajectory ::
    "stoketraject \<Rightarrow> pmap \<Rightarrow> int \<Rightarrow> (prim list \<times> (error + stoketraject)) option" where
  "flush_trajectory st pm viewtype =
     (case add_scanned_trajectory st pm viewtype of
        (st1, None) \<Rightarrow> None
      | (st1, Some (Inl err)) \<Rightarrow> Some ([], Inl err)
      | (st1, Some (Inr es)) \<Rightarrow>
          (case add_scanned_tickmarks st1 pm viewtype of
             (ticks, Inl err) \<Rightarrow> Some (concat (map prims es) @ ticks, Inl err)
           | (ticks, Inr _) \<Rightarrow>
               (case add_scanned_labels st1 pm of
                  (labels, Inl err) \<Rightarrow> Some (concat (map prims es) @ ticks @ labels, Inl err)
                | (labels, Inr _) \<Rightarrow> Some (concat (map prims es) @ ticks @ labels, Inr st1))))"

section \<open>Writing all trajectories of the file\<close>

text \<open>
  The loop \<open>while (new_trajectory(infileptr))\<close> of \<open>write_scanned_trajectories()\<close>. The
  result is what has been written to the output file and how the run went on: \<open>Inr\<close> when
  the loop has come to its end, \<open>Inl\<close> with the failure that stopped the program, whose
  output up to there stays in the file.
\<close>

function trajectories ::
    "uninitialised \<Rightarrow> infile \<Rightarrow> stoketraject \<Rightarrow> int \<Rightarrow> pmap \<Rightarrow> int
       \<Rightarrow> (prim list \<times> (error + unit)) option" where
  "trajectories u inp st coord pm viewtype =
     (case new_trajectory inp of (found, inp1) \<Rightarrow>
        if found then
          (case scan_trajectory u inp1 st coord of
             Inl err \<Rightarrow> Some ([], Inl err)
           | Inr (inp2, st2, coord2) \<Rightarrow>
               (case flush_trajectory st2 pm viewtype of
                  None \<Rightarrow> None
                | Some (out, Inl err) \<Rightarrow> Some (out, Inl err)
                | Some (out, Inr st3) \<Rightarrow>
                    (case trajectories u inp2 (reset_stokes_trajectory_struct st3) coord2 pm viewtype of
                       None \<Rightarrow> None
                     | Some (out', r) \<Rightarrow> Some (out @ out', r))))
        else Some ([], Inr ()))"
  by pat_completeness auto

text \<open>
  \<open>open_infile()\<close> returns \<open>NULL\<close> (here \<open>None\<close>) when no input file was named. The file
  itself is a parameter: its content, or \<open>None\<close> when it cannot be opened.
\<close>

definition open_infile :: "pmap \<Rightarrow> infile option \<Rightarrow> error + infile option" where
  "open_infile pm file =
     (if \<not> user_specified_inputfile pm then Inr None
      else (case file of None \<Rightarrow> Inl Cannot_open_file | Some inp \<Rightarrow> Inr (Some inp)))"

text \<open>
  \<open>write_scanned_trajectories()\<close>, called with \<open>viewtype\<close> \<open>HIDDEN\<close> or \<open>VISIBLE\<close>.
\<close>

definition write_scanned_trajectories ::
    "uninitialised \<Rightarrow> infile option \<Rightarrow> pmap \<Rightarrow> int \<Rightarrow> (prim list \<times> (error + unit)) option" where
  "write_scanned_trajectories u file pm viewtype =
     (let st = reset_stokes_trajectory_struct (initialize_stoke_trajectory u) in
      case open_infile pm file of
        Inl err \<Rightarrow> Some ([], Inl err)
      | Inr None \<Rightarrow> Some ([], Inr ())
      | Inr (Some inp) \<Rightarrow>
          (case trajectories u inp st 0 pm viewtype of
             None \<Rightarrow> None
           | Some (out, Inl err) \<Rightarrow>
               Some ([Save_ahangle, Set_ahangle (arrowheadangle pm), Pickup (paththickness pm)] @ out,
                     Inl err)
           | Some (out, Inr _) \<Rightarrow>
               Some ([Save_ahangle, Set_ahangle (arrowheadangle pm), Pickup (paththickness pm)] @ out
                       @ [Restore_ahangle],
                     Inr ())))"

text \<open>
  The two calls of \<open>write_scanned_trajectories()\<close> in \<open>main()\<close>, the first with \<open>HIDDEN\<close>
  and the second with \<open>VISIBLE\<close>. Both open and read the input file anew. The second call
  is reached only when the first has not ended the program.
\<close>

definition main_trajectories ::
    "uninitialised \<Rightarrow> infile option \<Rightarrow> pmap \<Rightarrow> (prim list \<times> (error + unit)) option" where
  "main_trajectories u file pm =
     (case write_scanned_trajectories u file pm HIDDEN of
        None \<Rightarrow> None
      | Some (out1, Inl err) \<Rightarrow> Some (out1, Inl err)
      | Some (out1, Inr _) \<Rightarrow>
          (case write_scanned_trajectories u file pm VISIBLE of
             None \<Rightarrow> None
           | Some (out2, r) \<Rightarrow> Some (out1 @ out2, r)))"

section \<open>Notions used to state the properties\<close>

text \<open>The index \<open>i\<close> lies in the index range \<open>r = (ka, kb)\<close>.\<close>

definition covers :: "int \<times> int \<Rightarrow> int \<Rightarrow> bool" where
  "covers r i = (fst r \<le> i \<and> i \<le> snd r)"

text \<open>
  The one-sample extension of a range on each side, as far as the trajectory reaches:
  the start is decremented when it exceeds 1, the end incremented when it is below
  \<open>numcoords\<close>.
\<close>

definition extension :: "stoketraject \<Rightarrow> int \<times> int \<Rightarrow> int \<times> int" where
  "extension st r = ((if fst r > 1 then fst r - 1 else fst r),
                     (if snd r < numcoords st then snd r + 1 else snd r))"

text \<open>The numbers of points of the sub-paths among some primitives, in the order written.\<close>

fun path_lengths :: "prim list \<Rightarrow> nat list" where
  "path_lengths [] = []"
| "path_lengths (Path pts bezier cmd col # ps) = length pts # path_lengths ps"
| "path_lengths (p # ps) = path_lengths ps"

text \<open>
  A sub-path of the hidden class carries the clause \<open>dashed evenly withcolor black\<close> or a
  gray tone, one of the visible class the clause \<open>withcolor black\<close>.
\<close>

fun is_hidden_path :: "prim \<Rightarrow> bool" where
  "is_hidden_path (Path pts bezier cmd col) = (col \<noteq> Black)"
| "is_hidden_path p = False"

fun is_visible_path :: "prim \<Rightarrow> bool" where
  "is_visible_path (Path pts bezier cmd col) = (col = Black)"
| "is_visible_path p = False"

section \<open>Example data\<close>

text \<open>
  The view \<open>\<psi> = \<phi> = 0\<close> with an input file named, and otherwise the program's defaults
  (no normalisation, straight joins, hidden parts in the gray tone 0.65).
\<close>

definition front_view :: pmap where
  "front_view =
     \<lparr>verbose = False, use_normalized_stokes_params = False, use_bezier_curves = False,
      user_specified_inputfile = True, draw_hidden_dashed = False, draw_paths_as_arrows = False,
      reverse_arrow_paths = False, rot_psi = 0, rot_phi = 0, hiddengraytone = 0.65,
      paththickness = 1, arrowheadangle = 30\<rparr>"

text \<open>Memory that happens to hold zeros and blanks.\<close>

definition blank_memory :: uninitialised where
  "blank_memory =
     \<lparr>u_s1 = 0, u_s2 = 0, u_s3 = 0, u_tmpstr = [],
      u_arrays = \<lparr>numcoords = 0, st_s1 = (\<lambda>k. 0), st_s2 = (\<lambda>k. 0), st_s3 = (\<lambda>k. 0),
                  st_visible = (\<lambda>k. False), numtickmarks = 0, st_tickmark = (\<lambda>k. 0),
                  numlabels = 0, st_label = (\<lambda>k. 0), labeltext = (\<lambda>k j. CHR '' ''),
                  labellength = (\<lambda>k. 0), labelpos = (\<lambda>k. 0)\<rparr>\<rparr>"

text \<open>
  A classified trajectory of three samples, hidden, visible, hidden: at \<open>\<psi> = \<phi> = 0\<close> the
  sign of \<open>s1\<close> decides.
\<close>

definition hidden_visible_hidden :: stoketraject where
  "hidden_visible_hidden =
     (u_arrays blank_memory)
       \<lparr>numcoords := 3,
        st_s1 := (\<lambda>k. if k = 2 then 1 else - 1),
        st_s2 := (\<lambda>k. if k = 1 then 1 else if k = 3 then - 1 else 0),
        st_s3 := (\<lambda>k. if k = 2 then 1 else 0),
        st_visible := (\<lambda>k. k = 2)\<rparr>"

text \<open>A classified trajectory of six samples: hidden, visible, visible, hidden, hidden, visible.\<close>

definition six_samples :: stoketraject where
  "six_samples =
     (u_arrays blank_memory)
       \<lparr>numcoords := 6,
        st_s1 := (\<lambda>k. if k = 2 \<or> k = 3 \<or> k = 6 then 1 else - 1),
        st_visible := (\<lambda>k. k = 2 \<or> k = 3 \<or> k = 6)\<rparr>"

text \<open>The record \<open>p, (1,0,0), (0,1,0), (-1,0,0), q\<close>, one item per line.\<close>

definition three_points :: infile where
  "three_points = ''p\<newline>1 0 0\<newline>0 1 0\<newline>-1 0 0\<newline>q''"

text \<open>The trajectory that the scanner builds from it in blank memory.\<close>

definition three_points_scanned :: stoketraject where
  "three_points_scanned =
     (reset_stokes_trajectory_struct (initialize_stoke_trajectory blank_memory))
       \<lparr>numcoords := 3,
        st_s1 := (st_s1 (reset_stokes_trajectory_struct (initialize_stoke_trajectory blank_memory)))
                   (1 := 1, 2 := 0, 3 := - 1),
        st_s2 := (st_s2 (reset_stokes_trajectory_struct (initialize_stoke_trajectory blank_memory)))
                   (1 := 0, 2 := 1, 3 := 0),
        st_s3 := (st_s3 (reset_stokes_trajectory_struct (initialize_stoke_trajectory blank_memory)))
                   (1 := 0, 2 := 0, 3 := 0)\<rparr>"

text \<open>A label text between quote marks.\<close>

definition quoted :: "string \<Rightarrow> string" where
  "quoted s = CHR 0x22 # s @ [CHR 0x22]"



text \<open>A record that is not closed by \<open>q\<close>: the file ends behind the second triplet.\<close>

definition unterminated :: infile where
  "unterminated = ''p\<newline>1 0 0\<newline>0 1 0\<newline>''"

text \<open>
  A record with a begin label, and the same record with a label at the tick mark of its
  first sample as well.
\<close>

definition begin_label_only :: infile where
  "begin_label_only =
     ''p b top '' @ quoted ''A'' @ ''\<newline>0 1 0 t\<newline>0 0 1\<newline>q''"

definition begin_and_tick_label :: infile where
  "begin_and_tick_label =
     ''p b top '' @ quoted ''A'' @ ''\<newline>0 1 0 t l bot '' @ quoted ''B''
       @ ''\<newline>0 0 1\<newline>q''"

text \<open>
  Two records, each partly in front of and partly behind the sphere at \<open>\<psi> = \<phi> = 0\<close>.
\<close>

definition two_trajectories :: infile where
  "two_trajectories =
     ''p\<newline>1 0 0\<newline>1 1 0\<newline>-1 1 0\<newline>-1 0 0\<newline>q\<newline>''
       @ ''p\<newline>-1 0 1\<newline>-1 1 1\<newline>1 1 1\<newline>1 0 1\<newline>q\<newline>''"

text \<open>What a scanned trajectory holds in its label slots 1, 2 and \<open>MAX_NUM_LABELS + 2\<close>.\<close>

definition label_slots :: "stoketraject \<Rightarrow> (int \<times> int \<times> string) list" where
  "label_slots st =
     map (\<lambda>k. (st_label st k, labelpos st k, map (labeltext st k) [1..labellength st k]))
       [1, 2, MAX_NUM_LABELS + 2]"

section \<open>The scanners never lengthen the input\<close>

text \<open>
  Every scanner returns a part of the input it was given. This is what makes the loop
  over the trajectories of a file end.
\<close>

lemma readaway_row_length: "length (readaway_row r) \<le> length r"
  by (induction r) auto

lemma readaway_length: "length (readaway_comments_and_blanks r) \<le> length r"
proof (induction r rule: readaway_comments_and_blanks.induct)
  case 1
  then show ?case by simp
next
  case (2 ch rest)
  then show ?case
    using readaway_row_length [of rest] by (auto simp del: readaway_row.simps)
qed

lemma peek_length:
  "new_trajectory inp = (found, rest) \<Longrightarrow> length rest \<le> length inp \<and> (found \<longrightarrow> length rest < length inp)"
  "end_of_trajectory inp = (found, rest) \<Longrightarrow> length rest \<le> length inp"
  "beginlabel inp = (found, rest) \<Longrightarrow> length rest \<le> length inp"
  "tickmark inp = (found, rest) \<Longrightarrow> length rest \<le> length inp"
  "tickmarklabel inp = (found, rest) \<Longrightarrow> length rest \<le> length inp"
  "endlabel inp = (found, rest) \<Longrightarrow> length rest \<le> length inp"
  by (auto simp: new_trajectory_def end_of_trajectory_def beginlabel_def tickmark_def
        tickmarklabel_def endlabel_def getc_def split: list.splits if_splits)

lemma scan_sign_length: "scan_sign inp = (neg, rest) \<Longrightarrow> length rest \<le> length inp"
  by (auto simp: scan_sign_def split: list.splits if_splits)

lemma scan_exponent_length: "scan_exponent inp = Some (ex, rest) \<Longrightarrow> length rest \<le> length inp"
  by (auto simp: scan_exponent_def split: list.splits if_splits prod.splits
        dest!: scan_sign_length intro: order_trans [OF length_dropWhile_le] le_SucI)

lemma scan_fraction_length: "scan_fraction inp = (fp, rest) \<Longrightarrow> length rest \<le> length inp"
  by (auto simp: scan_fraction_def le_SucI length_dropWhile_le split: list.splits if_splits)

lemma fscanf_f_length:
  assumes "fscanf_f inp old = (rc, v, rest)"
  shows "length rest \<le> length inp"
proof (cases "dropWhile isspace inp = []")
  case True
  with assms show ?thesis by (simp add: fscanf_f_def)
next
  case False
  obtain neg inp2 where s: "scan_sign (dropWhile isspace inp) = (neg, inp2)"
    by (cases "scan_sign (dropWhile isspace inp)")
  obtain fp inp3 where f: "scan_fraction (dropWhile isdigit inp2) = (fp, inp3)"
    by (cases "scan_fraction (dropWhile isdigit inp2)")
  have l2: "length inp2 \<le> length inp"
    using scan_sign_length [OF s] length_dropWhile_le [of isspace inp] by linarith
  have l3: "length inp3 \<le> length inp2"
    using scan_fraction_length [OF f] length_dropWhile_le [of isdigit inp2] by linarith
  from assms False s f have "rest = inp2 \<or> rest = inp3
      \<or> (\<exists>ex. scan_exponent inp3 = Some (ex, rest))"
    by (auto simp: fscanf_f_def Let_def split: if_splits option.splits)
  then show ?thesis
    using l2 l3 scan_exponent_length by fastforce
qed

lemma fscanf_s_length: "fscanf_s inp old = (rc, v, rest) \<Longrightarrow> length rest \<le> length inp"
  by (auto simp: fscanf_s_def Let_def split: if_splits
        intro: order_trans [OF length_dropWhile_le length_dropWhile_le])

lemma scan_label_text_length:
  "scan_label_text inp txt = Inr (t, rest) \<Longrightarrow> length rest \<le> length inp"
  by (induction inp "txt" rule: scan_label_text.induct) (auto split: if_splits)

lemma scan_label_length:
  assumes "scan_label u inp st lnum coordnum = Inr (rest, st')"
  shows "length rest \<le> length inp"
proof -
  obtain rc tmpstr inp2 where f: "fscanf_s (readaway_comments_and_blanks inp) (u_tmpstr u) = (rc, tmpstr, inp2)"
    by (cases "fscanf_s (readaway_comments_and_blanks inp) (u_tmpstr u)")
  have l2: "length inp2 \<le> length inp"
    using fscanf_s_length [OF f] readaway_length [of inp] by linarith
  obtain ch inp4 where g: "getc (dropWhile (\<lambda>ch. ch = CHR '' '') inp2) = (ch, inp4)"
    by (cases "getc (dropWhile (\<lambda>ch. ch = CHR '' '') inp2)")
  have l4: "length inp4 \<le> length inp2"
    using g length_dropWhile_le [of "\<lambda>ch. ch = CHR '' ''" inp2]
    by (auto simp: getc_def split: list.splits)
  from assms f g obtain t where "scan_label_text inp4 [] = Inr (t, rest)"
    by (auto simp: scan_label_def Let_def split: if_splits sum.splits)
  from scan_label_text_length [OF this] l2 l4 show ?thesis by linarith
qed

lemma scan_for_stokes_triplet_length:
  assumes "scan_for_stokes_triplet u inp st = Inr (rest, st')"
  shows "length rest \<le> length inp"
proof -
  obtain rc1 s1 inp1 where f1: "fscanf_f inp (u_s1 u) = (rc1, s1, inp1)"
    by (cases "fscanf_f inp (u_s1 u)")
  obtain rc2 s2 inp2 where f2: "fscanf_f inp1 (u_s2 u) = (rc2, s2, inp2)"
    by (cases "fscanf_f inp1 (u_s2 u)")
  obtain rc3 s3 inp3 where f3: "fscanf_f inp2 (u_s3 u) = (rc3, s3, inp3)"
    by (cases "fscanf_f inp2 (u_s3 u)")
  from assms f1 f2 f3 have "rest = inp3"
    by (auto simp: scan_for_stokes_triplet_def Let_def split: if_splits)
  with fscanf_f_length [OF f1] fscanf_f_length [OF f2] fscanf_f_length [OF f3]
  show ?thesis by simp
qed

lemma scan_for_tickmark_length:
  "scan_for_tickmark inp st = Inr (rest, st') \<Longrightarrow> length rest \<le> length inp"
  by (auto simp: scan_for_tickmark_def Let_def split: prod.splits if_splits dest: peek_length(4))

lemma scan_for_tickmarklabel_length:
  "scan_for_tickmarklabel u inp st = Inr (rest, st') \<Longrightarrow> length rest \<le> length inp"
  by (fastforce simp: scan_for_tickmarklabel_def Let_def split: prod.splits if_splits
        dest: peek_length(5) scan_label_length)

lemma scan_triplets_length:
  "scan_triplets u inp st coord = Inr (rest, st', coord') \<Longrightarrow> length rest \<le> length inp"
proof (induction u inp st coord rule: scan_triplets.induct)
  case (1 u inp st coord)
  obtain found inp0 where e: "end_of_trajectory inp = (found, inp0)"
    by (cases "end_of_trajectory inp")
  have l0: "length inp0 \<le> length inp" using peek_length(2) [OF e] .
  show ?case
  proof (cases found)
    case True
    with "1.prems" e have "rest = inp0" by (subst (asm) scan_triplets.simps) simp
    with l0 show ?thesis by simp
  next
    case False
    from "1.prems" e False obtain inp1 st1 inp2 st2 inp3 st3 where
      s: "scan_for_stokes_triplet u inp0 st = Inr (inp1, st1)"
         "scan_for_tickmark (readaway_comments_and_blanks inp1) st1 = Inr (inp2, st2)"
         "scan_for_tickmarklabel u (readaway_comments_and_blanks inp2) st2 = Inr (inp3, st3)"
         "scan_triplets u (readaway_comments_and_blanks inp3) st3 (coord + 1) = Inr (rest, st', coord')"
      by (subst (asm) scan_triplets.simps) (auto split: sum.splits)
    have "length rest \<le> length (readaway_comments_and_blanks inp3)"
      by (rule "1.IH") (use e False s in auto)
    with scan_for_stokes_triplet_length [OF s(1)] scan_for_tickmark_length [OF s(2)]
      scan_for_tickmarklabel_length [OF s(3)] readaway_length [of inp1] readaway_length [of inp2]
      readaway_length [of inp3] l0
    show ?thesis by linarith
  qed
qed

lemma scan_trajectory_length:
  assumes "scan_trajectory u inp st coord = Inr (rest, st', coord')"
  shows "length rest \<le> length inp"
proof -
  obtain foundb inp1 where b: "beginlabel (readaway_comments_and_blanks inp) = (foundb, inp1)"
    by (cases "beginlabel (readaway_comments_and_blanks inp)")
  have l1: "length inp1 \<le> length inp"
    using peek_length(3) [OF b] readaway_length [of inp] by linarith
  from assms b obtain inp3 st3 where
    s3: "(if foundb then
            (case scan_beginlabel u inp1 st 1 of
               Inl err \<Rightarrow> Inl err
             | Inr (inp2, st2) \<Rightarrow> Inr (readaway_comments_and_blanks inp2, st2))
          else Inr (inp1, st)) = Inr (inp3, st3)"
    by (auto simp: scan_trajectory_def split: sum.splits)
  have l3: "length inp3 \<le> length inp1"
  proof (cases foundb)
    case True
    with s3 obtain inp2 where "scan_label u inp1 st 1 1 = Inr (inp2, st3)"
        "inp3 = readaway_comments_and_blanks inp2"
      by (auto simp: scan_beginlabel_def split: sum.splits)
    with scan_label_length [of u inp1 st 1 1 inp2 st3] readaway_length [of inp2]
    show ?thesis by simp
  next
    case False
    with s3 show ?thesis by simp
  qed
  from assms b s3 obtain inp4 st4 coord4 where
    s4: "scan_triplets u inp3 (st3\<lparr>numcoords := 0\<rparr>) coord = Inr (inp4, st4, coord4)"
    by (auto simp: scan_trajectory_def split: sum.splits)
  have l4: "length inp4 \<le> length inp3" using scan_triplets_length [OF s4] .
  obtain founde inp5 where e: "endlabel (readaway_comments_and_blanks inp4) = (founde, inp5)"
    by (cases "endlabel (readaway_comments_and_blanks inp4)")
  have l5: "length inp5 \<le> length inp4"
    using peek_length(6) [OF e] readaway_length [of inp4] by linarith
  have "length rest \<le> length inp5"
  proof (cases founde)
    case True
    with assms b s3 s4 e obtain inp6 st6 where
      "scan_label u inp5 st4 (MAX_NUM_LABELS + 2) coord4 = Inr (inp6, st6)"
      "rest = readaway_comments_and_blanks inp6"
      by (auto simp: scan_trajectory_def scan_endlabel_def split: sum.splits)
    with scan_label_length [of u inp5 st4 "MAX_NUM_LABELS + 2" coord4 inp6 st6]
      readaway_length [of inp6]
    show ?thesis by simp
  next
    case False
    with assms b s3 s4 e show ?thesis
      by (auto simp: scan_trajectory_def split: sum.splits)
  qed
  with l1 l3 l4 l5 show ?thesis by linarith
qed

text \<open>The loop over the trajectories reads at least the \<open>p\<close> in every turn.\<close>

termination trajectories
proof (relation "measure (\<lambda>(u, inp, st, coord, pm, viewtype). length inp)")
  fix u inp st and coord :: int and pm :: pmap and viewtype :: int
    and x y b xa ya and ba :: stoketraject and yb :: int
  assume "(x, y) = new_trajectory inp" "x"
    and "scan_trajectory u y st coord = Inr b" "(xa, ya) = b"
  then have "length y < length inp" "length xa \<le> length y"
    using peek_length(1) [of inp x y]
      scan_trajectory_length [of u y st coord xa "fst ya" "snd ya"]
    by auto
  then show "((u, xa, reset_stokes_trajectory_struct ba, yb, pm, viewtype),
              u, inp, st, coord, pm, viewtype)
      \<in> measure (\<lambda>(u, inp, st, coord, pm, viewtype). length inp)"
    by simp
qed simp

declare trajectories.simps [simp del]

section \<open>Properties of the classifier and the projection\<close>



text \<open>
  Claim C2. Over the real numbers and with normalisation disabled the projection of
  \<open>(s1, s2, s3)\<close> is
  \<open>x = s1 sin \<psi> + s2 cos \<psi>\<close> and
  \<open>y = - s1 cos \<psi> sin \<phi> + s2 sin \<psi> sin \<phi> + s3 cos \<phi>\<close>; at \<open>\<psi> = \<phi> = 0\<close> the point
  \<open>(0, 1, 0)\<close> goes to \<open>(1, 0)\<close> and \<open>(0, 0, 1)\<close> goes to \<open>(0, 1)\<close>.
\<close>

theorem get_screen_coordinates_formula:
  "(\<not> use_normalized_stokes_params pm \<longrightarrow>
      get_screen_coordinates s1 s2 s3 pm =
        (s1 * sin (rot_psi pm) + s2 * cos (rot_psi pm),
         - s1 * cos (rot_psi pm) * sin (rot_phi pm)
           + s2 * sin (rot_psi pm) * sin (rot_phi pm) + s3 * cos (rot_phi pm)))
   \<and> (\<not> use_normalized_stokes_params pm \<longrightarrow> rot_psi pm = 0 \<longrightarrow> rot_phi pm = 0 \<longrightarrow>
        get_screen_coordinates 0 1 0 pm = (1, 0) \<and> get_screen_coordinates 0 0 1 pm = (0, 1))"
  by (simp add: get_screen_coordinates_def)

theorem get_screen_coordinates_formula_witness:
  "\<not> use_normalized_stokes_params front_view
   \<and> rot_psi front_view = 0 \<and> rot_phi front_view = 0
   \<and> get_screen_coordinates 0 1 0 front_view = (1, 0)
   \<and> get_screen_coordinates 0 0 1 front_view = (0, 1)
   \<and> get_screen_coordinates 1 0 0 front_view = (0, 0)"
  using get_screen_coordinates_formula [of front_view 1 0 0]
  by (simp add: front_view_def)

section \<open>The two sweeps return, and what they return\<close>

text \<open>
  The inner loop of the hidden sweep, entered at the first sample \<open>ka\<close> of a hidden run,
  stops at the first visible sample behind the run or behind the last sample.
\<close>

lemma hidden_while_run:
  assumes "ka \<le> numcoords st" "\<not> st_visible st ka" "1 \<le> ka" "ka \<le> k" "k \<le> numcoords st + 1"
    and "\<forall>i. ka \<le> i \<and> i < k \<longrightarrow> \<not> st_visible st i"
  shows "\<exists>k' kb'. hidden_while st ka k (ka - 1) = Some (Inr (k', kb'))
           \<and> ka + 1 \<le> k' \<and> k \<le> k' \<and> k' \<le> numcoords st + 1
           \<and> (\<forall>i. ka \<le> i \<and> i < k' \<longrightarrow> \<not> st_visible st i)
           \<and> (k' \<le> numcoords st \<longrightarrow> st_visible st k')"
  using assms
proof (induction "nat (numcoords st + 1 - k)" arbitrary: k rule: less_induct)
  case less
  show ?case
  proof (cases "k \<le> numcoords st")
    case False
    then have "hidden_while st ka k (ka - 1) = Some (Inr (k, ka - 1))"
      by (subst hidden_while.simps) simp
    with False less.prems show ?thesis by auto
  next
    case True
    show ?thesis
    proof (cases "st_visible st k")
      case vis: True
      with less.prems have kgt: "ka < k" by (cases "k = ka") auto
      then have prev: "\<not> st_visible st (k - 1)" using less.prems by auto
      have pj: "point_just_became_visible st k = Inr True"
        using vis prev kgt True less.prems by (simp add: point_just_became_visible_def)
      have "hidden_while st ka k (k - 1) = Some (Inr (k, k - 1))"
        using kgt by (subst hidden_while.simps) simp
      then have "hidden_while st ka k (ka - 1) = Some (Inr (k, k - 1))"
        using True pj by (subst hidden_while.simps) simp
      with vis kgt less.prems show ?thesis by auto
    next
      case hid: False
      have pj: "point_just_became_visible st k = Inr False"
        using hid True less.prems by (auto simp: point_just_became_visible_def)
      have step: "hidden_while st ka k (ka - 1) = hidden_while st ka (k + 1) (ka - 1)"
        using True pj by (subst hidden_while.simps) simp
      have "\<forall>i. ka \<le> i \<and> i < k + 1 \<longrightarrow> \<not> st_visible st i"
        using hid less.prems by (metis zle_add1_eq_le less_le)
      from less.hyps[of "k + 1"] this True less.prems
      obtain k' kb' where "hidden_while st ka (k + 1) (ka - 1) = Some (Inr (k', kb'))"
          "ka + 1 \<le> k'" "k + 1 \<le> k'" "k' \<le> numcoords st + 1"
          "\<forall>i. ka \<le> i \<and> i < k' \<longrightarrow> \<not> st_visible st i"
          "k' \<le> numcoords st \<longrightarrow> st_visible st k'"
        by auto
      with step show ?thesis by auto
    qed
  qed
qed

lemma hidden_sweep_runs:
  assumes "1 \<le> k" "k = 1 \<or> numcoords st < k \<or> st_visible st (k - 1)"
  shows "\<exists>es. hidden_sweep st pm k = Some (Inr es)
     \<and> (\<forall>i. length (filter (\<lambda>e. covers (core e) i) es)
              = (if k \<le> i \<and> i \<le> numcoords st \<and> \<not> st_visible st i then 1 else 0))
     \<and> (\<forall>e\<in>set es. call_range e = core e \<and> k \<le> fst (core e) \<and> fst (core e) \<le> snd (core e)
            \<and> snd (core e) \<le> numcoords st
            \<and> prims e = add_subtrajectory st (fst (core e)) (snd (core e)) pm ''hidden'')"
  using assms
proof (induction "nat (numcoords st + 2 - k)" arbitrary: k rule: less_induct)
  case less
  show ?case
  proof (cases "k \<le> numcoords st")
    case False
    then have "hidden_sweep st pm k = Some (Inr [])"
      by (subst hidden_sweep.simps) simp
    with False show ?thesis by auto
  next
    case True
    show ?thesis
    proof (cases "st_visible st k")
      case vis: True
      have pj: "point_just_became_hidden st k = Inr False"
        using vis True less.prems by (auto simp: point_just_became_hidden_def)
      have step: "hidden_sweep st pm k = hidden_sweep st pm (k + 1)"
        using True pj by (subst hidden_sweep.simps) simp
      from less.hyps[of "k + 1"] vis True less.prems
      obtain es where es: "hidden_sweep st pm (k + 1) = Some (Inr es)"
        "\<forall>i. length (filter (\<lambda>e. covers (core e) i) es)
              = (if k + 1 \<le> i \<and> i \<le> numcoords st \<and> \<not> st_visible st i then 1 else 0)"
        "\<forall>e\<in>set es. call_range e = core e \<and> k + 1 \<le> fst (core e) \<and> fst (core e) \<le> snd (core e)
            \<and> snd (core e) \<le> numcoords st
            \<and> prims e = add_subtrajectory st (fst (core e)) (snd (core e)) pm ''hidden''"
        by auto
      have "\<forall>i. (k + 1 \<le> i \<and> i \<le> numcoords st \<and> \<not> st_visible st i)
                = (k \<le> i \<and> i \<le> numcoords st \<and> \<not> st_visible st i)"
        using vis by (metis add1_zle_eq less_le)
      with es step show ?thesis by fastforce
    next
      case hid: False
      have pj: "point_just_became_hidden st k = Inr True"
        using hid True less.prems by (auto simp: point_just_became_hidden_def)
      have "\<forall>i. k \<le> i \<and> i < k \<longrightarrow> \<not> st_visible st i" by auto
      from hidden_while_run[OF True hid less.prems(1) order_refl _ this] True
      obtain k' kb' where w: "hidden_while st k k (k - 1) = Some (Inr (k', kb'))"
          "k + 1 \<le> k'" "k' \<le> numcoords st + 1"
          "\<forall>i. k \<le> i \<and> i < k' \<longrightarrow> \<not> st_visible st i"
          "k' \<le> numcoords st \<longrightarrow> st_visible st k'"
        by force
      from less.hyps[of "k' + 1"] w less.prems
      obtain es where es: "hidden_sweep st pm (k' + 1) = Some (Inr es)"
        "\<forall>i. length (filter (\<lambda>e. covers (core e) i) es)
              = (if k' + 1 \<le> i \<and> i \<le> numcoords st \<and> \<not> st_visible st i then 1 else 0)"
        "\<forall>e\<in>set es. call_range e = core e \<and> k' + 1 \<le> fst (core e) \<and> fst (core e) \<le> snd (core e)
            \<and> snd (core e) \<le> numcoords st
            \<and> prims e = add_subtrajectory st (fst (core e)) (snd (core e)) pm ''hidden''"
        by auto
      define e0 where "e0 = \<lparr>core = (k, k' - 1), call_range = (k, k' - 1),
                                     prims = add_subtrajectory st k (k' - 1) pm ''hidden''\<rparr>"
      have step: "hidden_sweep st pm k = Some (Inr (e0 # es))"
        using True pj w(1) es(1) by (subst hidden_sweep.simps) (simp add: emit_def e0_def Let_def)
      have cnt: "length (filter (\<lambda>e. covers (core e) i) (e0 # es))
              = (if k \<le> i \<and> i \<le> numcoords st \<and> \<not> st_visible st i then 1 else 0)" for i
      proof -
        consider "i < k" | "k \<le> i" "i < k'" | "i = k'" | "k' < i" by linarith
        then show ?thesis
        proof cases
          case 1 then show ?thesis using es(2) w by (simp add: covers_def e0_def)
        next
          case 2 then show ?thesis using es(2) w by (simp add: covers_def e0_def)
        next
          case 3 then show ?thesis using es(2) w by (auto simp add: covers_def e0_def)
        next
          case 4 then show ?thesis using es(2) w by (simp add: covers_def e0_def)
        qed
      qed
      have "\<forall>e\<in>set (e0 # es). call_range e = core e \<and> k \<le> fst (core e) \<and> fst (core e) \<le> snd (core e)
            \<and> snd (core e) \<le> numcoords st
            \<and> prims e = add_subtrajectory st (fst (core e)) (snd (core e)) pm ''hidden''"
        using es(3) w by (auto simp: e0_def)
      with step cnt show ?thesis by blast
    qed
  qed
qed

lemma visible_while_run:
  assumes "ka \<le> numcoords st" "st_visible st ka" "1 \<le> ka" "ka \<le> k" "k \<le> numcoords st + 1"
    and "\<forall>i. ka \<le> i \<and> i < k \<longrightarrow> st_visible st i"
  shows "\<exists>k' kb'. visible_while st ka k (ka - 1) = Some (Inr (k', kb'))
           \<and> ka + 1 \<le> k' \<and> k \<le> k' \<and> k' \<le> numcoords st + 1
           \<and> (\<forall>i. ka \<le> i \<and> i < k' \<longrightarrow> st_visible st i)
           \<and> (k' \<le> numcoords st \<longrightarrow> \<not> st_visible st k')"
  using assms
proof (induction "nat (numcoords st + 1 - k)" arbitrary: k rule: less_induct)
  case less
  show ?case
  proof (cases "k \<le> numcoords st")
    case False
    then have "visible_while st ka k (ka - 1) = Some (Inr (k, ka - 1))"
      by (subst visible_while.simps) simp
    with False less.prems show ?thesis by auto
  next
    case True
    show ?thesis
    proof (cases "st_visible st k")
      case hid: False
      with less.prems have kgt: "ka < k" by (cases "k = ka") auto
      then have prev: "st_visible st (k - 1)" using less.prems by auto
      have pj: "point_just_became_hidden st k = Inr True"
        using hid prev kgt True less.prems by (simp add: point_just_became_hidden_def)
      have "visible_while st ka k (k - 1) = Some (Inr (k, k - 1))"
        using kgt by (subst visible_while.simps) simp
      then have "visible_while st ka k (ka - 1) = Some (Inr (k, k - 1))"
        using True pj by (subst visible_while.simps) simp
      with hid kgt less.prems show ?thesis by auto
    next
      case vis: True
      have pj: "point_just_became_hidden st k = Inr False"
        using vis True less.prems by (auto simp: point_just_became_hidden_def)
      have step: "visible_while st ka k (ka - 1) = visible_while st ka (k + 1) (ka - 1)"
        using True pj by (subst visible_while.simps) simp
      have "\<forall>i. ka \<le> i \<and> i < k + 1 \<longrightarrow> st_visible st i"
        using vis less.prems by (metis zle_add1_eq_le less_le)
      from less.hyps[of "k + 1"] this True less.prems
      obtain k' kb' where "visible_while st ka (k + 1) (ka - 1) = Some (Inr (k', kb'))"
          "ka + 1 \<le> k'" "k + 1 \<le> k'" "k' \<le> numcoords st + 1"
          "\<forall>i. ka \<le> i \<and> i < k' \<longrightarrow> st_visible st i"
          "k' \<le> numcoords st \<longrightarrow> \<not> st_visible st k'"
        by auto
      with step show ?thesis by auto
    qed
  qed
qed

lemma visible_sweep_runs:
  assumes "1 \<le> k" "k = 1 \<or> numcoords st < k \<or> \<not> st_visible st (k - 1)"
  shows "\<exists>es. visible_sweep st pm k = Some (Inr es)
     \<and> (\<forall>i. length (filter (\<lambda>e. covers (core e) i) es)
              = (if k \<le> i \<and> i \<le> numcoords st \<and> st_visible st i then 1 else 0))
     \<and> (\<forall>e\<in>set es. call_range e = extension st (core e)
            \<and> k \<le> fst (core e) \<and> fst (core e) \<le> snd (core e)
            \<and> snd (core e) \<le> numcoords st
            \<and> prims e = add_subtrajectory st (fst (call_range e)) (snd (call_range e)) pm ''visible'')"
  using assms
proof (induction "nat (numcoords st + 2 - k)" arbitrary: k rule: less_induct)
  case less
  show ?case
  proof (cases "k \<le> numcoords st")
    case False
    then have "visible_sweep st pm k = Some (Inr [])"
      by (subst visible_sweep.simps) simp
    with False show ?thesis by auto
  next
    case True
    show ?thesis
    proof (cases "st_visible st k")
      case hid: False
      have pj: "point_just_became_visible st k = Inr False"
        using hid True less.prems by (auto simp: point_just_became_visible_def)
      have step: "visible_sweep st pm k = visible_sweep st pm (k + 1)"
        using True pj by (subst visible_sweep.simps) simp
      from less.hyps[of "k + 1"] hid True less.prems
      obtain es where es: "visible_sweep st pm (k + 1) = Some (Inr es)"
        "\<forall>i. length (filter (\<lambda>e. covers (core e) i) es)
              = (if k + 1 \<le> i \<and> i \<le> numcoords st \<and> st_visible st i then 1 else 0)"
        "\<forall>e\<in>set es. call_range e = extension st (core e)
            \<and> k + 1 \<le> fst (core e) \<and> fst (core e) \<le> snd (core e)
            \<and> snd (core e) \<le> numcoords st
            \<and> prims e = add_subtrajectory st (fst (call_range e)) (snd (call_range e)) pm ''visible''"
        by auto
      have "\<forall>i. (k + 1 \<le> i \<and> i \<le> numcoords st \<and> st_visible st i)
                = (k \<le> i \<and> i \<le> numcoords st \<and> st_visible st i)"
        using hid by (metis add1_zle_eq less_le)
      with es step show ?thesis by fastforce
    next
      case vis: True
      have pj: "point_just_became_visible st k = Inr True"
        using vis True less.prems by (auto simp: point_just_became_visible_def)
      have "\<forall>i. k \<le> i \<and> i < k \<longrightarrow> st_visible st i" by auto
      from visible_while_run[OF True vis less.prems(1) order_refl _ this] True
      obtain k' kb' where w: "visible_while st k k (k - 1) = Some (Inr (k', kb'))"
          "k + 1 \<le> k'" "k' \<le> numcoords st + 1"
          "\<forall>i. k \<le> i \<and> i < k' \<longrightarrow> st_visible st i"
          "k' \<le> numcoords st \<longrightarrow> \<not> st_visible st k'"
        by force
      from less.hyps[of "k' + 1"] w less.prems
      obtain es where es: "visible_sweep st pm (k' + 1) = Some (Inr es)"
        "\<forall>i. length (filter (\<lambda>e. covers (core e) i) es)
              = (if k' + 1 \<le> i \<and> i \<le> numcoords st \<and> st_visible st i then 1 else 0)"
        "\<forall>e\<in>set es. call_range e = extension st (core e)
            \<and> k' + 1 \<le> fst (core e) \<and> fst (core e) \<le> snd (core e)
            \<and> snd (core e) \<le> numcoords st
            \<and> prims e = add_subtrajectory st (fst (call_range e)) (snd (call_range e)) pm ''visible''"
        by auto
      define e0 where "e0 = \<lparr>core = (k, k' - 1), call_range = extension st (k, k' - 1),
             prims = add_subtrajectory st (fst (extension st (k, k' - 1)))
                        (snd (extension st (k, k' - 1))) pm ''visible''\<rparr>"
      have step: "visible_sweep st pm k = Some (Inr (e0 # es))"
        using True pj w(1) es(1)
        by (subst visible_sweep.simps) (simp add: emit_def e0_def Let_def extension_def)
      have cnt: "length (filter (\<lambda>e. covers (core e) i) (e0 # es))
              = (if k \<le> i \<and> i \<le> numcoords st \<and> st_visible st i then 1 else 0)" for i
      proof -
        consider "i < k" | "k \<le> i" "i < k'" | "i = k'" | "k' < i" by linarith
        then show ?thesis
        proof cases
          case 1 then show ?thesis using es(2) w by (simp add: covers_def e0_def)
        next
          case 2 then show ?thesis using es(2) w by (simp add: covers_def e0_def)
        next
          case 3 then show ?thesis using es(2) w by (auto simp add: covers_def e0_def)
        next
          case 4 then show ?thesis using es(2) w by (simp add: covers_def e0_def)
        qed
      qed
      have "\<forall>e\<in>set (e0 # es). call_range e = extension st (core e)
            \<and> k \<le> fst (core e) \<and> fst (core e) \<le> snd (core e)
            \<and> snd (core e) \<le> numcoords st
            \<and> prims e = add_subtrajectory st (fst (call_range e)) (snd (call_range e)) pm ''visible''"
        using es(3) w by (auto simp: e0_def)
      with step cnt show ?thesis by blast
    qed
  qed
qed

lemma sweeps_return:
  "\<exists>hs vs. add_hidden_subtrajectories st pm = Some (Inr hs)
     \<and> add_visible_subtrajectories st pm = Some (Inr vs)
     \<and> (\<forall>i. length (filter (\<lambda>e. covers (core e) i) hs)
            = (if 1 \<le> i \<and> i \<le> numcoords st \<and> \<not> st_visible st i then 1 else 0))
     \<and> (\<forall>i. length (filter (\<lambda>e. covers (core e) i) vs)
            = (if 1 \<le> i \<and> i \<le> numcoords st \<and> st_visible st i then 1 else 0))
     \<and> (\<forall>e\<in>set hs. call_range e = core e \<and> 1 \<le> fst (core e) \<and> fst (core e) \<le> snd (core e)
            \<and> snd (core e) \<le> numcoords st
            \<and> prims e = add_subtrajectory st (fst (core e)) (snd (core e)) pm ''hidden'')
     \<and> (\<forall>e\<in>set vs. call_range e = extension st (core e)
            \<and> 1 \<le> fst (core e) \<and> fst (core e) \<le> snd (core e)
            \<and> snd (core e) \<le> numcoords st
            \<and> prims e = add_subtrajectory st (fst (call_range e)) (snd (call_range e)) pm ''visible'')"
proof -
  from hidden_sweep_runs [of 1 st pm] obtain hs where
    h: "hidden_sweep st pm 1 = Some (Inr hs)"
       "\<forall>i. length (filter (\<lambda>e. covers (core e) i) hs)
            = (if 1 \<le> i \<and> i \<le> numcoords st \<and> \<not> st_visible st i then 1 else 0)"
       "\<forall>e\<in>set hs. call_range e = core e \<and> 1 \<le> fst (core e) \<and> fst (core e) \<le> snd (core e)
            \<and> snd (core e) \<le> numcoords st
            \<and> prims e = add_subtrajectory st (fst (core e)) (snd (core e)) pm ''hidden''"
    by auto
  from visible_sweep_runs [of 1 st pm] obtain vs where
    v: "visible_sweep st pm 1 = Some (Inr vs)"
       "\<forall>i. length (filter (\<lambda>e. covers (core e) i) vs)
            = (if 1 \<le> i \<and> i \<le> numcoords st \<and> st_visible st i then 1 else 0)"
       "\<forall>e\<in>set vs. call_range e = extension st (core e)
            \<and> 1 \<le> fst (core e) \<and> fst (core e) \<le> snd (core e)
            \<and> snd (core e) \<le> numcoords st
            \<and> prims e = add_subtrajectory st (fst (call_range e)) (snd (call_range e)) pm ''visible''"
    by auto
  show ?thesis
    unfolding add_hidden_subtrajectories_def add_visible_subtrajectories_def
    by (intro exI [of _ hs] exI [of _ vs] conjI h v)
qed

text \<open>The two example trajectories, evaluated.\<close>

lemmas sweep_eval = add_hidden_subtrajectories_def add_visible_subtrajectories_def
  hidden_sweep.simps hidden_while.simps visible_sweep.simps visible_while.simps
  point_just_became_hidden_def point_just_became_visible_def emit_def



lemma six_samples_hidden:
  "add_hidden_subtrajectories six_samples front_view =
     Some (Inr [\<lparr>core = (1, 1), call_range = (1, 1), prims = [Pickup 1]\<rparr>,
                \<lparr>core = (4, 5), call_range = (4, 5),
                   prims = [Pickup 1, Path [(0, 0), (0, 0)] False Draw (Gray 0.65)]\<rparr>])"
  by (simp add: sweep_eval six_samples_def blank_memory_def add_subtrajectory_def
        path_points_def front_view_def get_screen_coordinates_def upto.simps)

lemma six_samples_visible:
  "add_visible_subtrajectories six_samples front_view =
     Some (Inr [\<lparr>core = (2, 3), call_range = (1, 4),
                   prims = [Pickup 1, Path [(0, 0), (0, 0), (0, 0), (0, 0)] False Draw Black]\<rparr>,
                \<lparr>core = (6, 6), call_range = (5, 6),
                   prims = [Pickup 1, Path [(0, 0), (0, 0)] False Draw Black]\<rparr>])"
  by (simp add: sweep_eval six_samples_def blank_memory_def add_subtrajectory_def
        path_points_def front_view_def get_screen_coordinates_def upto.simps)

lemma path_lengths_add_subtrajectory:
  "path_lengths (add_subtrajectory st ka kb pm type)
     = (if ka < kb then [nat (kb - ka + 1)] else [])"
  by (simp add: add_subtrajectory_def path_points_def)

section \<open>Properties of the segmentation\<close>

text \<open>
  Claim C3. For every classified trajectory both sweeps return, and the core ranges of
  the runs of the hidden sweep together with those of the visible sweep partition the
  indices \<open>1, ..., N\<close>: every index lies in the core range of exactly one run, every core
  range is a non-empty range inside \<open>1, ..., N\<close>, hidden runs hold hidden samples only and
  visible runs visible samples only. A run is what a sweep hands to \<open>add_subtrajectory()\<close>;
  whether that call draws it is the subject of claim C5.
\<close>

theorem core_ranges_partition_indices:
  "\<exists>hs vs. add_hidden_subtrajectories st pm = Some (Inr hs)
     \<and> add_visible_subtrajectories st pm = Some (Inr vs)
     \<and> (\<forall>i. 1 \<le> i \<and> i \<le> numcoords st \<longrightarrow>
            length (filter (\<lambda>e. covers (core e) i) (hs @ vs)) = 1)
     \<and> (\<forall>e\<in>set (hs @ vs). 1 \<le> fst (core e) \<and> fst (core e) \<le> snd (core e)
            \<and> snd (core e) \<le> numcoords st)
     \<and> (\<forall>e\<in>set hs. \<forall>i. covers (core e) i \<longrightarrow> \<not> st_visible st i)
     \<and> (\<forall>e\<in>set vs. \<forall>i. covers (core e) i \<longrightarrow> st_visible st i)"
proof -
  from sweeps_return [of st pm] obtain hs vs where
    r: "add_hidden_subtrajectories st pm = Some (Inr hs)"
       "add_visible_subtrajectories st pm = Some (Inr vs)"
    and ch: "\<And>i. length (filter (\<lambda>e. covers (core e) i) hs)
            = (if 1 \<le> i \<and> i \<le> numcoords st \<and> \<not> st_visible st i then 1 else 0)"
    and cv: "\<And>i. length (filter (\<lambda>e. covers (core e) i) vs)
            = (if 1 \<le> i \<and> i \<le> numcoords st \<and> st_visible st i then 1 else 0)"
    and eh: "\<And>e. e \<in> set hs \<Longrightarrow> 1 \<le> fst (core e) \<and> fst (core e) \<le> snd (core e)
            \<and> snd (core e) \<le> numcoords st"
    and ev: "\<And>e. e \<in> set vs \<Longrightarrow> 1 \<le> fst (core e) \<and> fst (core e) \<le> snd (core e)
            \<and> snd (core e) \<le> numcoords st"
    by (elim exE conjE) simp
  have one: "\<forall>i. 1 \<le> i \<and> i \<le> numcoords st \<longrightarrow>
            length (filter (\<lambda>e. covers (core e) i) (hs @ vs)) = 1"
    by (simp add: ch cv)
  have inr: "\<forall>e\<in>set (hs @ vs). 1 \<le> fst (core e) \<and> fst (core e) \<le> snd (core e)
            \<and> snd (core e) \<le> numcoords st"
    using eh ev by auto
  have hh: "\<forall>e\<in>set hs. \<forall>i. covers (core e) i \<longrightarrow> \<not> st_visible st i"
  proof (intro ballI allI impI)
    fix e i assume "e \<in> set hs" "covers (core e) i"
    then have "filter (\<lambda>e. covers (core e) i) hs \<noteq> []"
      by (auto simp: filter_empty_conv)
    then have "length (filter (\<lambda>e. covers (core e) i) hs) \<noteq> 0" by simp
    with ch [of i] show "\<not> st_visible st i" by (auto split: if_splits)
  qed
  have vv: "\<forall>e\<in>set vs. \<forall>i. covers (core e) i \<longrightarrow> st_visible st i"
  proof (intro ballI allI impI)
    fix e i assume "e \<in> set vs" "covers (core e) i"
    then have "filter (\<lambda>e. covers (core e) i) vs \<noteq> []"
      by (auto simp: filter_empty_conv)
    then have "length (filter (\<lambda>e. covers (core e) i) vs) \<noteq> 0" by simp
    with cv [of i] show "st_visible st i" by (auto split: if_splits)
  qed
  from r one inr hh vv show ?thesis by blast
qed

theorem core_ranges_partition_indices_witness:
  "1 \<le> (4::int) \<and> 4 \<le> numcoords six_samples
   \<and> add_hidden_subtrajectories six_samples front_view =
       Some (Inr [\<lparr>core = (1, 1), call_range = (1, 1), prims = [Pickup 1]\<rparr>,
                  \<lparr>core = (4, 5), call_range = (4, 5),
                     prims = [Pickup 1, Path [(0, 0), (0, 0)] False Draw (Gray 0.65)]\<rparr>])
   \<and> add_visible_subtrajectories six_samples front_view =
       Some (Inr [\<lparr>core = (2, 3), call_range = (1, 4),
                     prims = [Pickup 1, Path [(0, 0), (0, 0), (0, 0), (0, 0)] False Draw Black]\<rparr>,
                  \<lparr>core = (6, 6), call_range = (5, 6),
                     prims = [Pickup 1, Path [(0, 0), (0, 0)] False Draw Black]\<rparr>])
   \<and> map (\<lambda>i. length (filter (\<lambda>r. covers r i) [(1, 1), (4, 5), (2, 3), (6, 6)])) [1, 2, 3, 4, 5, 6]
       = [1, 1, 1, 1, 1, 1]"
proof -
  have n: "numcoords six_samples = 6"
    by (simp add: six_samples_def)
  show ?thesis
    using core_ranges_partition_indices [of six_samples front_view]
    by (simp add: six_samples_hidden six_samples_visible covers_def n)
qed

text \<open>
  Claim C4. The range passed on by the visible sweep is the core range extended by one
  sample on each side: the start is decremented only when it exceeds 1 and the end is
  incremented only when it is below \<open>N\<close>, so the range stays inside \<open>1, ..., N\<close>. The
  hidden sweep passes on the core range itself.
\<close>

theorem visible_runs_extended_hidden_runs_exact:
  "\<exists>hs vs. add_hidden_subtrajectories st pm = Some (Inr hs)
     \<and> add_visible_subtrajectories st pm = Some (Inr vs)
     \<and> (\<forall>e\<in>set vs.
            fst (call_range e) = (if fst (core e) > 1 then fst (core e) - 1 else fst (core e))
          \<and> snd (call_range e)
              = (if snd (core e) < numcoords st then snd (core e) + 1 else snd (core e))
          \<and> 1 \<le> fst (call_range e) \<and> fst (call_range e) \<le> snd (call_range e)
          \<and> snd (call_range e) \<le> numcoords st
          \<and> prims e = add_subtrajectory st (fst (call_range e)) (snd (call_range e)) pm ''visible'')
     \<and> (\<forall>e\<in>set hs.
            call_range e = core e
          \<and> 1 \<le> fst (call_range e) \<and> fst (call_range e) \<le> snd (call_range e)
          \<and> snd (call_range e) \<le> numcoords st
          \<and> prims e = add_subtrajectory st (fst (call_range e)) (snd (call_range e)) pm ''hidden'')"
proof -
  from sweeps_return [of st pm] obtain hs vs where
    r: "add_hidden_subtrajectories st pm = Some (Inr hs)"
       "add_visible_subtrajectories st pm = Some (Inr vs)"
    and eh: "\<forall>e\<in>set hs. call_range e = core e \<and> 1 \<le> fst (core e) \<and> fst (core e) \<le> snd (core e)
            \<and> snd (core e) \<le> numcoords st
            \<and> prims e = add_subtrajectory st (fst (core e)) (snd (core e)) pm ''hidden''"
    and ev: "\<forall>e\<in>set vs. call_range e = extension st (core e)
            \<and> 1 \<le> fst (core e) \<and> fst (core e) \<le> snd (core e)
            \<and> snd (core e) \<le> numcoords st
            \<and> prims e = add_subtrajectory st (fst (call_range e)) (snd (call_range e)) pm ''visible''"
    by (elim exE conjE) simp
  have "\<forall>e\<in>set vs.
            fst (call_range e) = (if fst (core e) > 1 then fst (core e) - 1 else fst (core e))
          \<and> snd (call_range e)
              = (if snd (core e) < numcoords st then snd (core e) + 1 else snd (core e))
          \<and> 1 \<le> fst (call_range e) \<and> fst (call_range e) \<le> snd (call_range e)
          \<and> snd (call_range e) \<le> numcoords st
          \<and> prims e = add_subtrajectory st (fst (call_range e)) (snd (call_range e)) pm ''visible''"
    using ev by (auto simp: extension_def)
  moreover have "\<forall>e\<in>set hs.
            call_range e = core e
          \<and> 1 \<le> fst (call_range e) \<and> fst (call_range e) \<le> snd (call_range e)
          \<and> snd (call_range e) \<le> numcoords st
          \<and> prims e = add_subtrajectory st (fst (call_range e)) (snd (call_range e)) pm ''hidden''"
    using eh by auto
  ultimately show ?thesis using r by blast
qed

theorem visible_runs_extended_hidden_runs_exact_witness:
  "add_hidden_subtrajectories six_samples front_view =
       Some (Inr [\<lparr>core = (1, 1), call_range = (1, 1), prims = [Pickup 1]\<rparr>,
                  \<lparr>core = (4, 5), call_range = (4, 5),
                     prims = [Pickup 1, Path [(0, 0), (0, 0)] False Draw (Gray 0.65)]\<rparr>])
   \<and> add_visible_subtrajectories six_samples front_view =
       Some (Inr [\<lparr>core = (2, 3), call_range = (1, 4),
                     prims = [Pickup 1, Path [(0, 0), (0, 0), (0, 0), (0, 0)] False Draw Black]\<rparr>,
                  \<lparr>core = (6, 6), call_range = (5, 6),
                     prims = [Pickup 1, Path [(0, 0), (0, 0)] False Draw Black]\<rparr>])
   \<and> numcoords six_samples = 6"
proof -
  have n: "numcoords six_samples = 6"
    by (simp add: six_samples_def)
  show ?thesis
    using visible_runs_extended_hidden_runs_exact [of six_samples front_view]
    by (simp add: six_samples_hidden six_samples_visible n)
qed

text \<open>
  Claim C5 says that every run of length 1 is dropped. That fails for the visible class:
  in the trajectory hidden, visible, hidden the visible run is the single sample 2, and
  the visible sweep draws it as a sub-path through the samples 1, 2, 3.
\<close>

theorem single_visible_sample_is_drawn:
  "add_visible_subtrajectories hidden_visible_hidden front_view =
     Some (Inr [\<lparr>core = (2, 2), call_range = (1, 3),
                   prims = [Pickup 1, Path [(1, 0), (0, 1), (- 1, 0)] False Draw Black]\<rparr>])"
  by (simp add: sweep_eval hidden_visible_hidden_def blank_memory_def add_subtrajectory_def
        path_points_def front_view_def get_screen_coordinates_def upto.simps)

text \<open>
  Claim C5, amended. \<open>add_subtrajectory()\<close> writes one sub-path when its range holds two
  samples or more and none otherwise. It gets the core range of a hidden run, so a hidden
  run of length 2 or more becomes exactly one sub-path and a hidden run of length 1 is
  dropped; it gets the extended range of a visible run, so every visible run becomes
  exactly one sub-path over its extended range, unless the trajectory consists of a
  single sample.
\<close>

theorem runs_drawn_or_dropped:
  "\<exists>hs vs. add_hidden_subtrajectories st pm = Some (Inr hs)
     \<and> add_visible_subtrajectories st pm = Some (Inr vs)
     \<and> (\<forall>e\<in>set hs.
            path_lengths (prims e)
              = (if fst (core e) < snd (core e) then [nat (snd (core e) - fst (core e) + 1)] else []))
     \<and> (\<forall>e\<in>set vs.
            path_lengths (prims e)
              = (if numcoords st = 1 then []
                 else [nat (snd (call_range e) - fst (call_range e) + 1)]))"
proof -
  from sweeps_return [of st pm] obtain hs vs where
    r: "add_hidden_subtrajectories st pm = Some (Inr hs)"
       "add_visible_subtrajectories st pm = Some (Inr vs)"
    and eh: "\<forall>e\<in>set hs. call_range e = core e \<and> 1 \<le> fst (core e) \<and> fst (core e) \<le> snd (core e)
            \<and> snd (core e) \<le> numcoords st
            \<and> prims e = add_subtrajectory st (fst (core e)) (snd (core e)) pm ''hidden''"
    and ev: "\<forall>e\<in>set vs. call_range e = extension st (core e)
            \<and> 1 \<le> fst (core e) \<and> fst (core e) \<le> snd (core e)
            \<and> snd (core e) \<le> numcoords st
            \<and> prims e = add_subtrajectory st (fst (call_range e)) (snd (call_range e)) pm ''visible''"
    by (elim exE conjE) simp
  have "\<forall>e\<in>set hs.
            path_lengths (prims e)
              = (if fst (core e) < snd (core e) then [nat (snd (core e) - fst (core e) + 1)] else [])"
    using eh by (simp add: path_lengths_add_subtrajectory)
  moreover have "\<forall>e\<in>set vs.
            path_lengths (prims e)
              = (if numcoords st = 1 then []
                 else [nat (snd (call_range e) - fst (call_range e) + 1)])"
  proof
    fix e assume e: "e \<in> set vs"
    with ev have c: "call_range e = extension st (core e)" "1 \<le> fst (core e)"
        "fst (core e) \<le> snd (core e)" "snd (core e) \<le> numcoords st"
        "prims e = add_subtrajectory st (fst (call_range e)) (snd (call_range e)) pm ''visible''"
      by auto
    have "fst (call_range e) < snd (call_range e) \<longleftrightarrow> numcoords st \<noteq> 1"
      using c(1-4) by (auto simp: extension_def)
    then show "path_lengths (prims e)
              = (if numcoords st = 1 then []
                 else [nat (snd (call_range e) - fst (call_range e) + 1)])"
      using c(5) by (simp add: path_lengths_add_subtrajectory)
  qed
  ultimately show ?thesis using r by blast
qed

theorem runs_drawn_or_dropped_witness:
  "add_hidden_subtrajectories six_samples front_view =
       Some (Inr [\<lparr>core = (1, 1), call_range = (1, 1), prims = [Pickup 1]\<rparr>,
                  \<lparr>core = (4, 5), call_range = (4, 5),
                     prims = [Pickup 1, Path [(0, 0), (0, 0)] False Draw (Gray 0.65)]\<rparr>])
   \<and> add_visible_subtrajectories six_samples front_view =
       Some (Inr [\<lparr>core = (2, 3), call_range = (1, 4),
                     prims = [Pickup 1, Path [(0, 0), (0, 0), (0, 0), (0, 0)] False Draw Black]\<rparr>,
                  \<lparr>core = (6, 6), call_range = (5, 6),
                     prims = [Pickup 1, Path [(0, 0), (0, 0)] False Draw Black]\<rparr>])
   \<and> numcoords six_samples \<noteq> 1
   \<and> path_lengths [Pickup 1] = []
   \<and> path_lengths [Pickup 1, Path [(0, 0), (0, 0)] False Draw (Gray 0.65)] = [2]
   \<and> path_lengths [Pickup 1, Path [(0, 0), (0, 0), (0, 0), (0, 0)] False Draw Black] = [4]
   \<and> path_lengths [Pickup 1, Path [(0, 0), (0, 0)] False Draw Black] = [2]"
proof -
  have n: "numcoords six_samples = 6"
    by (simp add: six_samples_def)
  show ?thesis
    using runs_drawn_or_dropped [of six_samples front_view]
    by (simp add: six_samples_hidden six_samples_visible n)
qed

section \<open>Running the model on a given file\<close>

text \<open>
  The equations that evaluate the scanners and the writers on a concrete input. The
  recursive equations of \<open>scan_triplets\<close> and \<open>trajectories\<close> are used only on an
  input that still has a character; at the end of the input the two lemmas below apply.
\<close>

lemmas scan_eval = fscanf_f_def fscanf_s_def scan_sign_def scan_fraction_def scan_exponent_def
  isdigit_def isspace_def isalnum_def digits_value_def getc_def new_trajectory_def
  end_of_trajectory_def beginlabel_def endlabel_def tickmark_def tickmarklabel_def
  scan_for_stokes_triplet_def scan_for_tickmark_def scan_for_tickmarklabel_def scan_label_def
  scan_beginlabel_def scan_endlabel_def label_position_def scan_trajectory_def
  MAX_NUM_STOKE_COORDS_def MAX_NUM_TICKMARKS_def MAX_NUM_LABELS_def quoted_def

lemmas flush_eval = flush_trajectory_def add_scanned_trajectory_def sort_out_visible_and_hidden_def
  add_scanned_tickmarks_def add_scanned_labels_def label_suffix_def
  add_hidden_subtrajectories_def add_visible_subtrajectories_def
  hidden_sweep.simps hidden_while.simps visible_sweep.simps visible_while.simps
  point_just_became_hidden_def point_just_became_visible_def emit_def
  add_subtrajectory_def path_points_def get_screen_coordinates_def
  visible_def vprod_def reset_stokes_trajectory_struct_def initialize_stoke_trajectory_def upto.simps
  HIDDEN_def VISIBLE_def TOPLABEL_def UPPERLEFTLABEL_def LEFTLABEL_def LOWERLEFTLABEL_def
  BOTTOMLABEL_def LOWERRIGHTLABEL_def RIGHTLABEL_def UPPERRIGHTLABEL_def

lemma scan_triplets_at_end_of_file: "scan_triplets u [] st coord = Inl Array_overrun"
proof (induction "nat (MAX_NUM_STOKE_COORDS + 1 - numcoords st)" arbitrary: st coord rule: less_induct)
  case less
  show ?case
  proof (cases "numcoords st + 1 < 0 \<or> numcoords st + 1 > MAX_NUM_STOKE_COORDS")
    case True
    then show ?thesis
      by (subst scan_triplets.simps)
         (auto simp: end_of_trajectory_def getc_def scan_for_stokes_triplet_def fscanf_f_def Let_def)
  next
    case False
    define st1 where "st1 = st\<lparr>numcoords := numcoords st + 1,
        st_s1 := (st_s1 st)(numcoords st + 1 := u_s1 u),
        st_s2 := (st_s2 st)(numcoords st + 1 := u_s2 u),
        st_s3 := (st_s3 st)(numcoords st + 1 := u_s3 u)\<rparr>"
    have "scan_triplets u [] st coord = scan_triplets u [] st1 (coord + 1)"
      using False
      by (subst scan_triplets.simps)
         (simp add: end_of_trajectory_def getc_def scan_for_stokes_triplet_def fscanf_f_def Let_def
            scan_for_tickmark_def tickmark_def scan_for_tickmarklabel_def tickmarklabel_def st1_def)
    moreover have "scan_triplets u [] st1 (coord + 1) = Inl Array_overrun"
      by (rule less.hyps) (use False in \<open>simp add: st1_def\<close>)
    ultimately show ?thesis by simp
  qed
qed

lemmas scan_triplets_more = scan_triplets.simps [of _ "ch # rest"] for ch rest

lemmas trajectories_more = trajectories.simps [of _ "ch # rest"] for ch rest

lemma trajectories_at_end_of_file: "trajectories u [] st coord pm viewtype = Some ([], Inr ())"
  by (subst trajectories.simps) (simp add: new_trajectory_def getc_def)

lemmas run_eval = main_trajectories_def write_scanned_trajectories_def open_infile_def
  scan_eval scan_triplets_more trajectories_more trajectories_at_end_of_file Let_def flush_eval

section \<open>Properties of the label scanner\<close>









text \<open>
  Claim C10 says that tick labels never take the slot of the begin or the end label.
  \<open>scan_for_tickmarklabel()\<close> counts the tick labels from \<open>numlabels = 0\<close>, so the first
  tick label of a record goes to slot 1, the slot of the begin label. For a record with
  the begin label \<open>A\<close> alone, slot 1 holds \<open>A\<close> and \<open>A\<close> is written; with a tick label \<open>B\<close>
  added, slot 1 holds \<open>B\<close>, slot 2 stays empty, and only \<open>B\<close> is written.
\<close>

theorem tick_label_overwrites_begin_label:
  "(case scan_trajectory u (tl begin_label_only)
           (reset_stokes_trajectory_struct (initialize_stoke_trajectory u)) 0 of
      Inl err \<Rightarrow> None
    | Inr (rest, st, coord) \<Rightarrow>
        Some (numcoords st, numlabels st, label_slots st, fst (add_scanned_labels st front_view)))
     = Some (2, 0, [(1, TOPLABEL, ''A''), (0, 0, []), (0, 0, [])], [Label ''top'' ''A'' (1, 0)])
   \<and> (case scan_trajectory u (tl begin_and_tick_label)
           (reset_stokes_trajectory_struct (initialize_stoke_trajectory u)) 0 of
      Inl err \<Rightarrow> None
    | Inr (rest, st, coord) \<Rightarrow>
        Some (numcoords st, numlabels st, label_slots st, fst (add_scanned_labels st front_view)))
     = Some (2, 1, [(1, BOTTOMLABEL, ''B''), (0, 0, []), (0, 0, [])], [Label ''bot'' ''B'' (1, 0)])"
  by (simp add: begin_label_only_def begin_and_tick_label_def label_slots_def run_eval front_view_def)

section \<open>Properties of whole runs\<close>

text \<open>
  A record without its \<open>q\<close> that is followed by another record is refused: the \<open>p\<close> of the
  next record is not a number, and the program exits with the diagnostic for a faulty
  \<open>S1\<close>.
\<close>

lemma unterminated_record_then_text_exits:
  "write_scanned_trajectories u (Some (unterminated @ ''p\<newline>1 0 0\<newline>q''))
       (pm\<lparr>user_specified_inputfile := True\<rparr>) viewtype
     = Some ([Save_ahangle, Set_ahangle (arrowheadangle pm), Pickup (paththickness pm)],
             Inl Faulty_S1)"
  by (simp add: unterminated_def run_eval)

text \<open>
  Claim C8 says that a record without its \<open>q\<close> makes the program fail with an error for
  malformed input. When the file ends inside the record, \<open>fscanf()\<close> returns \<open>EOF\<close>, which
  the test \<open>!fscanf(...)\<close> does not take for a failure: the loop goes on counting samples
  that it has not read until it writes behind the end of the coordinate arrays. No
  diagnostic is printed and nothing of the record is written.
\<close>

theorem unterminated_record_overruns:
  "write_scanned_trajectories u (Some unterminated) (pm\<lparr>user_specified_inputfile := True\<rparr>) viewtype
     = Some ([Save_ahangle, Set_ahangle (arrowheadangle pm), Pickup (paththickness pm)],
             Inl Array_overrun)"
  by (simp add: unterminated_def write_scanned_trajectories_def open_infile_def
        scan_eval scan_triplets_more trajectories_more Let_def scan_triplets_at_end_of_file)

text \<open>
  Claim C9 expects all three samples of the record \<open>(1,0,0)\<close>, \<open>(0,1,0)\<close>, \<open>(-1,0,0)\<close> to be
  visible at \<open>\<psi> = \<phi> = 0\<close>. Their scalars are \<open>1\<close>, \<open>0\<close> and \<open>-1\<close>: the third sample is
  hidden.
\<close>

theorem third_point_is_hidden:
  "scan_trajectory blank_memory (tl three_points)
       (reset_stokes_trajectory_struct (initialize_stoke_trajectory blank_memory)) 0
     = Inr ([], three_points_scanned, 3)
   \<and> vprod (st_s1 three_points_scanned 3) (st_s2 three_points_scanned 3)
         (st_s3 three_points_scanned 3) front_view = - 1
   \<and> st_visible (sort_out_visible_and_hidden three_points_scanned front_view) 1
   \<and> st_visible (sort_out_visible_and_hidden three_points_scanned front_view) 2
   \<and> \<not> st_visible (sort_out_visible_and_hidden three_points_scanned front_view) 3"
  by (simp add: three_points_def three_points_scanned_def scan_eval scan_triplets_more Let_def
        sort_out_visible_and_hidden_def visible_def vprod_def front_view_def upto.simps)

text \<open>
  Claim C9, amended. With \<open>\<psi> = \<phi> = 0\<close> and without normalisation the record is scanned
  as one trajectory of three samples, classified visible, visible, hidden. The hidden
  pass writes no sub-path: the hidden run is the single sample 3. The visible pass writes
  exactly one sub-path, of the three samples 1, 2, 3: the visible run 1, 2 extended by one
  sample. So the output holds one visible sub-path of length 3 and no hidden sub-path.
\<close>

theorem three_points_run:
  assumes "rot_psi pm = 0" and "rot_phi pm = 0" and "\<not> use_normalized_stokes_params pm"
    and "user_specified_inputfile pm"
  shows "(case scan_trajectory u (tl three_points)
             (reset_stokes_trajectory_struct (initialize_stoke_trajectory u)) 0 of
            Inl err \<Rightarrow> None
          | Inr (rest, st, coord) \<Rightarrow>
              Some (rest, numcoords st,
                    map (st_visible (sort_out_visible_and_hidden st pm)) [1, 2, 3]))
           = Some ([], 3, [True, True, False])
       \<and> write_scanned_trajectories u (Some three_points) pm HIDDEN
           = Some ([Save_ahangle, Set_ahangle (arrowheadangle pm), Pickup (paththickness pm),
                    Pickup (paththickness pm), Pickup (paththickness pm / 2),
                    Restore_ahangle], Inr ())
       \<and> write_scanned_trajectories u (Some three_points) pm VISIBLE
           = Some ([Save_ahangle, Set_ahangle (arrowheadangle pm), Pickup (paththickness pm),
                    Pickup (paththickness pm),
                    Path [(0, 0), (1, 0), (0, 0)] (use_bezier_curves pm)
                      (if draw_paths_as_arrows pm
                       then (if reverse_arrow_paths pm then Drawarrow_reverse else Drawarrow)
                       else Draw) Black,
                    Pickup (paththickness pm / 2), Restore_ahangle], Inr ())
       \<and> (case main_trajectories u (Some three_points) pm of
            None \<Rightarrow> None
          | Some (out, r) \<Rightarrow> Some (path_lengths (filter is_hidden_path out),
                                   path_lengths (filter is_visible_path out), r))
           = Some ([], [3], Inr ())"
  using assms
  by (simp add: three_points_def run_eval)

theorem three_points_run_witness:
  "rot_psi front_view = 0 \<and> rot_phi front_view = 0 \<and> \<not> use_normalized_stokes_params front_view
   \<and> user_specified_inputfile front_view
   \<and> write_scanned_trajectories blank_memory (Some three_points) front_view HIDDEN
       = Some ([Save_ahangle, Set_ahangle 30, Pickup 1, Pickup 1, Pickup (1 / 2),
                Restore_ahangle], Inr ())
   \<and> write_scanned_trajectories blank_memory (Some three_points) front_view VISIBLE
       = Some ([Save_ahangle, Set_ahangle 30, Pickup 1, Pickup 1,
                Path [(0, 0), (1, 0), (0, 0)] False Draw Black, Pickup (1 / 2),
                Restore_ahangle], Inr ())"
proof -
  have v: "rot_psi front_view = 0" "rot_phi front_view = 0"
    "\<not> use_normalized_stokes_params front_view" "user_specified_inputfile front_view"
    by (simp_all add: front_view_def)
  show ?thesis
    using v three_points_run [OF v, of blank_memory]
    by (simp add: front_view_def)
qed

lemma tickmarks_for_no_path:
  "p \<in> set (fst (tickmarks_for st pm viewtype ks)) \<Longrightarrow> \<not> is_hidden_path p \<and> \<not> is_visible_path p"
  by (induction ks arbitrary: p) (auto split: sum.splits prod.splits)

lemma add_scanned_tickmarks_no_path:
  "p \<in> set (fst (add_scanned_tickmarks st pm viewtype)) \<Longrightarrow> \<not> is_hidden_path p \<and> \<not> is_visible_path p"
  using tickmarks_for_no_path [of _ st pm viewtype "[1..numtickmarks st]"]
  by (auto simp: add_scanned_tickmarks_def split: prod.splits)

lemma labels_for_no_path:
  "p \<in> set (fst (labels_for st pm ks)) \<Longrightarrow> \<not> is_hidden_path p \<and> \<not> is_visible_path p"
  by (induction ks arbitrary: p) (auto split: sum.splits prod.splits if_splits)

lemma add_scanned_labels_no_path:
  "p \<in> set (fst (add_scanned_labels st pm)) \<Longrightarrow> \<not> is_hidden_path p \<and> \<not> is_visible_path p"
  by (simp add: add_scanned_labels_def labels_for_no_path)

lemma add_subtrajectory_hidden:
  "p \<in> set (add_subtrajectory st ka kb pm ''hidden'') \<Longrightarrow> \<not> is_visible_path p"
  by (auto simp: add_subtrajectory_def split: if_splits)

lemma add_subtrajectory_visible:
  "p \<in> set (add_subtrajectory st ka kb pm ''visible'') \<Longrightarrow> \<not> is_hidden_path p"
  by (auto simp: add_subtrajectory_def split: if_splits)

lemma flush_trajectory_hidden:
  "\<exists>out r. flush_trajectory st pm HIDDEN = Some (out, r) \<and> (\<forall>p\<in>set out. \<not> is_visible_path p)"
proof -
  define st1 where "st1 = sort_out_visible_and_hidden st pm"
  from sweeps_return [of st1 pm] obtain hs where
    h: "add_hidden_subtrajectories st1 pm = Some (Inr hs)"
    and eh: "\<forall>e\<in>set hs. call_range e = core e \<and> 1 \<le> fst (core e) \<and> fst (core e) \<le> snd (core e)
            \<and> snd (core e) \<le> numcoords st1
            \<and> prims e = add_subtrajectory st1 (fst (core e)) (snd (core e)) pm ''hidden''"
    by (elim exE conjE) simp
  have a: "add_scanned_trajectory st pm HIDDEN = (st1, Some (Inr hs))"
    by (simp add: add_scanned_trajectory_def st1_def [symmetric] h)
  have paths: "\<forall>p\<in>set (concat (map prims hs)). \<not> is_visible_path p"
    using eh add_subtrajectory_hidden by fastforce
  obtain ticks rt where t: "add_scanned_tickmarks st1 pm HIDDEN = (ticks, rt)"
    by (cases "add_scanned_tickmarks st1 pm HIDDEN")
  obtain labels rl where l: "add_scanned_labels st1 pm = (labels, rl)"
    by (cases "add_scanned_labels st1 pm")
  have nt: "\<forall>p\<in>set ticks. \<not> is_visible_path p"
    using add_scanned_tickmarks_no_path [of _ st1 pm HIDDEN] t by simp
  have nl: "\<forall>p\<in>set labels. \<not> is_visible_path p"
    using add_scanned_labels_no_path [of _ st1 pm] l by simp
  show ?thesis
    using a t l paths nt nl
    by (cases rt; cases rl) (auto simp: flush_trajectory_def)
qed

lemma flush_trajectory_visible:
  "\<exists>out r. flush_trajectory st pm VISIBLE = Some (out, r) \<and> (\<forall>p\<in>set out. \<not> is_hidden_path p)"
proof -
  define st1 where "st1 = sort_out_visible_and_hidden st pm"
  from sweeps_return [of st1 pm] obtain vs where
    h: "add_visible_subtrajectories st1 pm = Some (Inr vs)"
    and ev: "\<forall>e\<in>set vs. call_range e = extension st1 (core e)
            \<and> 1 \<le> fst (core e) \<and> fst (core e) \<le> snd (core e)
            \<and> snd (core e) \<le> numcoords st1
            \<and> prims e = add_subtrajectory st1 (fst (call_range e)) (snd (call_range e)) pm ''visible''"
    by (elim exE conjE) simp
  have a: "add_scanned_trajectory st pm VISIBLE = (st1, Some (Inr vs))"
    by (simp add: add_scanned_trajectory_def st1_def [symmetric] h HIDDEN_def VISIBLE_def)
  have paths: "\<forall>p\<in>set (concat (map prims vs)). \<not> is_hidden_path p"
    using ev add_subtrajectory_visible by fastforce
  obtain ticks rt where t: "add_scanned_tickmarks st1 pm VISIBLE = (ticks, rt)"
    by (cases "add_scanned_tickmarks st1 pm VISIBLE")
  obtain labels rl where l: "add_scanned_labels st1 pm = (labels, rl)"
    by (cases "add_scanned_labels st1 pm")
  have nt: "\<forall>p\<in>set ticks. \<not> is_hidden_path p"
    using add_scanned_tickmarks_no_path [of _ st1 pm VISIBLE] t by simp
  have nl: "\<forall>p\<in>set labels. \<not> is_hidden_path p"
    using add_scanned_labels_no_path [of _ st1 pm] l by simp
  show ?thesis
    using a t l paths nt nl
    by (cases rt; cases rl) (auto simp: flush_trajectory_def)
qed

lemma trajectories_all:
  assumes flush: "\<And>st. \<exists>out r. flush_trajectory st pm viewtype = Some (out, r) \<and> (\<forall>p\<in>set out. P p)"
  shows "\<exists>out r. trajectories u inp st coord pm viewtype = Some (out, r) \<and> (\<forall>p\<in>set out. P p)"
proof (induction "length inp" arbitrary: inp st coord rule: less_induct)
  case less
  obtain found inp1 where n: "new_trajectory inp = (found, inp1)"
    by (cases "new_trajectory inp")
  show ?case
  proof (cases found)
    case False
    with n have "trajectories u inp st coord pm viewtype = Some ([], Inr ())"
      by (subst trajectories.simps) simp
    then show ?thesis by simp
  next
    case True
    show ?thesis
    proof (cases "scan_trajectory u inp1 st coord")
      case (Inl err)
      with n True have "trajectories u inp st coord pm viewtype = Some ([], Inl err)"
        by (subst trajectories.simps) simp
      then show ?thesis by simp
    next
      case (Inr b)
      then obtain inp2 st2 coord2 where s: "scan_trajectory u inp1 st coord = Inr (inp2, st2, coord2)"
        by (cases b) auto
      from flush [of st2] obtain out r where
        f: "flush_trajectory st2 pm viewtype = Some (out, r)" "\<forall>p\<in>set out. P p"
        by blast
      show ?thesis
      proof (cases r)
        case (Inl err)
        with n True s f have "trajectories u inp st coord pm viewtype = Some (out, Inl err)"
          by (subst trajectories.simps) simp
        with f show ?thesis by simp
      next
        case (Inr st3)
        have "length inp2 < length inp"
          using peek_length(1) [OF n] True scan_trajectory_length [OF s] by simp
        from less.hyps [OF this, of "reset_stokes_trajectory_struct st3" coord2]
        obtain out' r' where
          t: "trajectories u inp2 (reset_stokes_trajectory_struct st3) coord2 pm viewtype = Some (out', r')"
             "\<forall>p\<in>set out'. P p"
          by blast
        from n True s f Inr t have "trajectories u inp st coord pm viewtype = Some (out @ out', r')"
          by (subst trajectories.simps) simp
        with f t show ?thesis by auto
      qed
    qed
  qed
qed

lemma write_scanned_trajectories_all:
  assumes flush: "\<And>st. \<exists>out r. flush_trajectory st pm viewtype = Some (out, r) \<and> (\<forall>p\<in>set out. P p)"
    and "P Save_ahangle" "P (Set_ahangle (arrowheadangle pm))" "P (Pickup (paththickness pm))"
        "P Restore_ahangle"
  shows "\<exists>out r. write_scanned_trajectories u file pm viewtype = Some (out, r) \<and> (\<forall>p\<in>set out. P p)"
proof (cases "open_infile pm file")
  case (Inl err)
  then show ?thesis by (simp add: write_scanned_trajectories_def)
next
  case (Inr f)
  show ?thesis
  proof (cases f)
    case None
    with Inr show ?thesis by (simp add: write_scanned_trajectories_def)
  next
    case (Some inp)
    from trajectories_all [of pm viewtype P u inp
        "reset_stokes_trajectory_struct (initialize_stoke_trajectory u)" 0, OF flush]
    obtain out r where
      t: "trajectories u inp (reset_stokes_trajectory_struct (initialize_stoke_trajectory u)) 0 pm viewtype
            = Some (out, r)" "\<forall>p\<in>set out. P p"
      by blast
    with Inr Some assms(2-) show ?thesis
      by (cases r) (auto simp: write_scanned_trajectories_def)
  qed
qed

lemma two_trajectories_run:
  "main_trajectories blank_memory (Some two_trajectories) front_view =
     Some ([Save_ahangle, Set_ahangle 30, Pickup 1,
            Pickup 1, Path [(1, 0), (0, 0)] False Draw (Gray 0.65), Pickup (1 / 2),
            Pickup 1, Path [(0, 1), (1, 1)] False Draw (Gray 0.65), Pickup (1 / 2),
            Restore_ahangle,
            Save_ahangle, Set_ahangle 30, Pickup 1,
            Pickup 1, Path [(0, 0), (1, 0), (1, 0)] False Draw Black, Pickup (1 / 2),
            Pickup 1, Path [(1, 1), (1, 1), (0, 1)] False Draw Black, Pickup (1 / 2),
            Restore_ahangle], Inr ())"
  by (simp add: two_trajectories_def run_eval front_view_def blank_memory_def)

text \<open>
  Claim C6. For every input file both passes return. The first pass, with \<open>HIDDEN\<close>,
  writes no sub-path of the visible class and the second, with \<open>VISIBLE\<close>, none of the
  hidden class; the output of \<open>main()\<close> is that of the first pass followed by that of the
  second (or that of the first alone, when it ended the program). Hence every hidden
  sub-path of every trajectory stands before every visible sub-path of every
  trajectory.
\<close>

theorem hidden_paths_before_visible_paths:
  "\<exists>out1 r1 out2 r2.
      write_scanned_trajectories u file pm HIDDEN = Some (out1, r1)
    \<and> write_scanned_trajectories u file pm VISIBLE = Some (out2, r2)
    \<and> (\<forall>p\<in>set out1. \<not> is_visible_path p)
    \<and> (\<forall>p\<in>set out2. \<not> is_hidden_path p)
    \<and> main_trajectories u file pm
          = (case r1 of Inl err \<Rightarrow> Some (out1, Inl err) | Inr ok \<Rightarrow> Some (out1 @ out2, r2))
    \<and> (\<forall>out r i j. main_trajectories u file pm = Some (out, r) \<longrightarrow>
           i < length out \<longrightarrow> j < length out \<longrightarrow>
           is_hidden_path (out ! i) \<longrightarrow> is_visible_path (out ! j) \<longrightarrow> i < j)"
proof -
  from write_scanned_trajectories_all [of pm HIDDEN "\<lambda>p. \<not> is_visible_path p" u "file"]
    flush_trajectory_hidden
  obtain out1 r1 where
    h: "write_scanned_trajectories u file pm HIDDEN = Some (out1, r1)"
       "\<forall>p\<in>set out1. \<not> is_visible_path p"
    by auto
  from write_scanned_trajectories_all [of pm VISIBLE "\<lambda>p. \<not> is_hidden_path p" u "file"]
    flush_trajectory_visible
  obtain out2 r2 where
    v: "write_scanned_trajectories u file pm VISIBLE = Some (out2, r2)"
       "\<forall>p\<in>set out2. \<not> is_hidden_path p"
    by auto
  have m: "main_trajectories u file pm
          = (case r1 of Inl err \<Rightarrow> Some (out1, Inl err) | Inr ok \<Rightarrow> Some (out1 @ out2, r2))"
    using h(1) v(1) by (simp add: main_trajectories_def split: sum.splits)
  have order: "i < j"
    if run: "main_trajectories u file pm = Some (out, r)"
      and i: "i < length out" "is_hidden_path (out ! i)"
      and j: "j < length out" "is_visible_path (out ! j)"
    for out r i j
  proof -
    from run m obtain rest where out: "out = out1 @ rest" and rest: "rest = [] \<or> rest = out2"
      by (cases r1) auto
    have "length out1 \<le> j"
    proof (rule ccontr)
      assume "\<not> length out1 \<le> j"
      then have "out ! j \<in> set out1" by (simp add: out nth_append)
      with h(2) j(2) show False by blast
    qed
    moreover have "i < length out1"
    proof (rule ccontr)
      assume n: "\<not> i < length out1"
      with i(1) out have "i - length out1 < length rest" by simp
      with n have "out ! i \<in> set rest" by (simp add: out nth_append)
      with rest v(2) i(2) show False by auto
    qed
    ultimately show ?thesis by simp
  qed
  from h v m order show ?thesis by blast
qed

theorem hidden_paths_before_visible_paths_witness:
  "main_trajectories blank_memory (Some two_trajectories) front_view =
     Some ([Save_ahangle, Set_ahangle 30, Pickup 1,
            Pickup 1, Path [(1, 0), (0, 0)] False Draw (Gray 0.65), Pickup (1 / 2),
            Pickup 1, Path [(0, 1), (1, 1)] False Draw (Gray 0.65), Pickup (1 / 2),
            Restore_ahangle,
            Save_ahangle, Set_ahangle 30, Pickup 1,
            Pickup 1, Path [(0, 0), (1, 0), (1, 0)] False Draw Black, Pickup (1 / 2),
            Pickup 1, Path [(1, 1), (1, 1), (0, 1)] False Draw Black, Pickup (1 / 2),
            Restore_ahangle], Inr ())
   \<and> is_hidden_path (Path [(0, 1), (1, 1)] False Draw (Gray 0.65))
   \<and> is_visible_path (Path [(0, 0), (1, 0), (1, 0)] False Draw Black)
   \<and> (7::nat) < 20 \<and> (14::nat) < 20 \<and> (7::nat) < 14"
  using hidden_paths_before_visible_paths [of blank_memory "Some two_trajectories" front_view]
  by (simp add: two_trajectories_run)

end
